theory Spec2Isabelle
  imports Main "HOL-Library.Multiset"
begin

section \<open>JSON values, as the route handlers see them\<close>

text \<open>
  Request bodies, query strings, stored documents and response bodies are JSON values.
  An object is the list of its own properties in enumeration order (the order of
  \<^verbatim>\<open>Object.keys\<close>, which for names that are not array indices is insertion order).
  Numbers are the integers; strings are byte strings.
\<close>

datatype json =
    JNull
  | JBool bool
  | JNum int
  | JStr string
  | JArr "json list"
  | JObj "(string \<times> json) list"

text \<open>
  Reading a property gives \<open>None\<close> for JavaScript's \<^verbatim>\<open>undefined\<close>.
  \<open>truthy\<close> is the conversion to boolean that \<^verbatim>\<open>if (x)\<close> and \<^verbatim>\<open>!x\<close> apply.
\<close>

fun truthy :: "json option \<Rightarrow> bool" where
  "truthy None = False"
| "truthy (Some JNull) = False"
| "truthy (Some (JBool b)) = b"
| "truthy (Some (JNum n)) = (n \<noteq> 0)"
| "truthy (Some (JStr s)) = (s \<noteq> [])"
| "truthy (Some (JArr vs)) = True"
| "truthy (Some (JObj ms)) = True"

text \<open>\<^verbatim>\<open>typeof x !== 'number'\<close>\<close>

fun not_a_number :: "json option \<Rightarrow> bool" where
  "not_a_number (Some (JNum n)) = False"
| "not_a_number x = True"

text \<open>A cached string read from Redis: \<^verbatim>\<open>if (cached)\<close> holds for a non-empty string.\<close>

fun truthy_string :: "string option \<Rightarrow> bool" where
  "truthy_string None = False"
| "truthy_string (Some s) = (s \<noteq> [])"

text \<open>\<^verbatim>\<open>obj[k] = v\<close>: overwrite in place, or append a new property.\<close>

fun set_prop :: "string \<Rightarrow> 'a \<Rightarrow> (string \<times> 'a) list \<Rightarrow> (string \<times> 'a) list" where
  "set_prop k v [] = [(k, v)]"
| "set_prop k v ((k', v') # ps) = (if k = k' then (k, v) # ps else (k', v') # set_prop k v ps)"

subsection \<open>Decimal and hexadecimal digits\<close>

definition digit_char :: "nat \<Rightarrow> char" where
  "digit_char d = char_of (48 + d)"

fun show_nat :: "nat \<Rightarrow> string" where
  "show_nat n = (if n < 10 then [digit_char n] else show_nat (n div 10) @ [digit_char (n mod 10)])"

declare show_nat.simps [simp del]

definition show_int :: "int \<Rightarrow> string" where
  "show_int i = (if i < 0 then CHR ''-'' # show_nat (nat (- i)) else show_nat (nat i))"

definition hex_digit :: "nat \<Rightarrow> char" where
  "hex_digit d = (if d < 10 then char_of (48 + d) else char_of (87 + d))"

definition digit_val :: "char \<Rightarrow> nat option" where
  "digit_val c = (let n = (of_char c :: nat) in if 48 \<le> n \<and> n \<le> 57 then Some (n - 48) else None)"

definition hex_val :: "char \<Rightarrow> nat option" where
  "hex_val c = (let n = (of_char c :: nat) in
     if 48 \<le> n \<and> n \<le> 57 then Some (n - 48)
     else if 97 \<le> n \<and> n \<le> 102 then Some (n - 87)
     else if 65 \<le> n \<and> n \<le> 70 then Some (n - 55)
     else None)"

subsection \<open>\<^verbatim>\<open>JSON.stringify\<close>\<close>

text \<open>
  A string is quoted as ECMAScript's QuoteJSONString does: the quotation mark and the
  backslash are escaped, the control characters below 0x20 are written with their short
  escape where one exists and as \<^verbatim>\<open>\u00XX\<close> otherwise, every other character is
  copied.
\<close>

definition dquote :: char where
  "dquote = CHR 0x22"

definition backslash :: char where
  "backslash = CHR 0x5C"

definition escape_char :: "char \<Rightarrow> string" where
  "escape_char c =
     (if c = dquote then [backslash, dquote]
      else if c = backslash then [backslash, backslash]
      else if c = CHR 0x08 then [backslash, CHR ''b'']
      else if c = CHR 0x09 then [backslash, CHR ''t'']
      else if c = CHR 0x0A then [backslash, CHR ''n'']
      else if c = CHR 0x0C then [backslash, CHR ''f'']
      else if c = CHR 0x0D then [backslash, CHR ''r'']
      else if (of_char c :: nat) < 32 then
        [backslash, CHR ''u'', CHR ''0'', CHR ''0'',
         hex_digit ((of_char c :: nat) div 16), hex_digit ((of_char c :: nat) mod 16)]
      else [c])"

definition quote :: "string \<Rightarrow> string" where
  "quote s = dquote # concat (map escape_char s) @ [dquote]"

fun JSON_stringify :: "json \<Rightarrow> string"
  and stringify_elems :: "json list \<Rightarrow> string"
  and stringify_members :: "(string \<times> json) list \<Rightarrow> string"
where
  "JSON_stringify JNull = ''null''"
| "JSON_stringify (JBool b) = (if b then ''true'' else ''false'')"
| "JSON_stringify (JNum n) = show_int n"
| "JSON_stringify (JStr s) = quote s"
| "JSON_stringify (JArr vs) = ''['' @ stringify_elems vs @ '']''"
| "JSON_stringify (JObj ms) = ''{'' @ stringify_members ms @ ''}''"
| "stringify_elems [] = []"
| "stringify_elems [v] = JSON_stringify v"
| "stringify_elems (v # w # vs) = JSON_stringify v @ '','' @ stringify_elems (w # vs)"
| "stringify_members [] = []"
| "stringify_members [(k, v)] = quote k @ '':'' @ JSON_stringify v"
| "stringify_members ((k, v) # m # ms) =
     quote k @ '':'' @ JSON_stringify v @ '','' @ stringify_members (m # ms)"

subsection \<open>\<^verbatim>\<open>JSON.parse\<close>\<close>

text \<open>
  A recursive-descent reader of JSON text. It accepts insignificant white space, the
  short escapes and \<^verbatim>\<open>\uXXXX\<close> escapes below 0x80, and integer literals; a text
  whose value lies outside \<^typ>\<open>json\<close> (a fraction, an exponent, an escape above 0x7f)
  is refused like a malformed one. Nesting is bounded by the fuel, which
  \<open>JSON_parse\<close> takes from the length of the text.
\<close>

definition is_ws :: "char \<Rightarrow> bool" where
  "is_ws c = (c = CHR 0x20 \<or> c = CHR 0x09 \<or> c = CHR 0x0A \<or> c = CHR 0x0D)"

fun skip_ws :: "string \<Rightarrow> string" where
  "skip_ws [] = []"
| "skip_ws (c # cs) = (if is_ws c then skip_ws cs else c # cs)"

definition unescape_char :: "char \<Rightarrow> char option" where
  "unescape_char e =
     (if e = dquote then Some dquote
      else if e = backslash then Some backslash
      else if e = CHR ''/'' then Some CHR ''/''
      else if e = CHR ''b'' then Some (CHR 0x08)
      else if e = CHR ''t'' then Some (CHR 0x09)
      else if e = CHR ''n'' then Some (CHR 0x0A)
      else if e = CHR ''f'' then Some (CHR 0x0C)
      else if e = CHR ''r'' then Some (CHR 0x0D)
      else None)"

definition hex4 :: "char \<Rightarrow> char \<Rightarrow> char \<Rightarrow> char \<Rightarrow> nat option" where
  "hex4 a b c d =
     (case (hex_val a, hex_val b, hex_val c, hex_val d) of
        (Some x, Some y, Some z, Some u) \<Rightarrow> Some (((x * 16 + y) * 16 + z) * 16 + u)
      | _ \<Rightarrow> None)"

definition cons_char :: "char \<Rightarrow> (string \<times> string) option \<Rightarrow> (string \<times> string) option" where
  "cons_char c r = (case r of None \<Rightarrow> None | Some (s, rest) \<Rightarrow> Some (c # s, rest))"

text \<open>The characters of a string literal, after its opening quotation mark.\<close>

fun parse_chars :: "string \<Rightarrow> (string \<times> string) option" where
  "parse_chars [] = None"
| "parse_chars (c # cs) =
     (if c = dquote then Some ([], cs)
      else if c = backslash then
        (case cs of
           [] \<Rightarrow> None
         | e # es \<Rightarrow>
             if e = CHR ''u'' then
               (case es of
                  a # b # x # y # rest \<Rightarrow>
                    (case hex4 a b x y of
                       None \<Rightarrow> None
                     | Some n \<Rightarrow>
                         if n < 128 then cons_char (char_of n) (parse_chars rest) else None)
                | _ \<Rightarrow> None)
             else
               (case unescape_char e of
                  None \<Rightarrow> None
                | Some u \<Rightarrow> cons_char u (parse_chars es)))
      else if (of_char c :: nat) < 32 then None
      else cons_char c (parse_chars cs))"

fun parse_digits :: "nat \<Rightarrow> string \<Rightarrow> nat \<times> string" where
  "parse_digits acc [] = (acc, [])"
| "parse_digits acc (c # cs) =
     (case digit_val c of
        Some d \<Rightarrow> parse_digits (10 * acc + d) cs
      | None \<Rightarrow> (acc, c # cs))"

definition parse_nat :: "string \<Rightarrow> (nat \<times> string) option" where
  "parse_nat s =
     (case s of
        [] \<Rightarrow> None
      | c # cs \<Rightarrow>
          (case digit_val c of
             None \<Rightarrow> None
           | Some d \<Rightarrow> if d = 0 then Some (0, cs) else Some (parse_digits d cs)))"

definition fraction_follows :: "string \<Rightarrow> bool" where
  "fraction_follows s =
     (case s of [] \<Rightarrow> False | c # cs \<Rightarrow> c = CHR ''.'' \<or> c = CHR ''e'' \<or> c = CHR ''E'')"

definition parse_number :: "string \<Rightarrow> (json \<times> string) option" where
  "parse_number s =
     (case s of
        [] \<Rightarrow> None
      | c # cs \<Rightarrow>
          (case parse_nat (if c = CHR ''-'' then cs else s) of
             None \<Rightarrow> None
           | Some (n, rest) \<Rightarrow>
               if fraction_follows rest then None
               else Some (JNum (if c = CHR ''-'' then - int n else int n), rest)))"

definition expect :: "string \<Rightarrow> string \<Rightarrow> string option" where
  "expect lit s = (if take (length lit) s = lit then Some (drop (length lit) s) else None)"

fun parse_value :: "nat \<Rightarrow> string \<Rightarrow> (json \<times> string) option"
  and parse_elems :: "nat \<Rightarrow> string \<Rightarrow> (json list \<times> string) option"
  and parse_members :: "nat \<Rightarrow> string \<Rightarrow> ((string \<times> json) list \<times> string) option"
where
  "parse_value 0 s = None"
| "parse_value (Suc n) s =
     (case skip_ws s of
        [] \<Rightarrow> None
      | c # cs \<Rightarrow>
          if c = CHR ''n'' then map_option (Pair JNull) (expect ''ull'' cs)
          else if c = CHR ''t'' then map_option (Pair (JBool True)) (expect ''rue'' cs)
          else if c = CHR ''f'' then map_option (Pair (JBool False)) (expect ''alse'' cs)
          else if c = dquote then
            (case parse_chars cs of None \<Rightarrow> None | Some (str, rest) \<Rightarrow> Some (JStr str, rest))
          else if c = CHR ''['' then
            (case skip_ws cs of
               [] \<Rightarrow> None
             | d # ds \<Rightarrow>
                 if d = CHR '']'' then Some (JArr [], ds)
                 else (case parse_elems n cs of
                         None \<Rightarrow> None
                       | Some (vs, rest) \<Rightarrow> Some (JArr vs, rest)))
          else if c = CHR ''{'' then
            (case skip_ws cs of
               [] \<Rightarrow> None
             | d # ds \<Rightarrow>
                 if d = CHR ''}'' then Some (JObj [], ds)
                 else (case parse_members n cs of
                         None \<Rightarrow> None
                       | Some (ms, rest) \<Rightarrow> Some (JObj ms, rest)))
          else parse_number (c # cs))"
| "parse_elems 0 s = None"
| "parse_elems (Suc n) s =
     (case parse_value n s of
        None \<Rightarrow> None
      | Some (v, rest) \<Rightarrow>
          (case skip_ws rest of
             [] \<Rightarrow> None
           | d # ds \<Rightarrow>
               if d = CHR '']'' then Some ([v], ds)
               else if d = CHR '','' then
                 (case parse_elems n ds of
                    None \<Rightarrow> None
                  | Some (vs, rest') \<Rightarrow> Some (v # vs, rest'))
               else None))"
| "parse_members 0 s = None"
| "parse_members (Suc n) s =
     (case skip_ws s of
        [] \<Rightarrow> None
      | q # qs \<Rightarrow>
          if q \<noteq> dquote then None
          else
            (case parse_chars qs of
               None \<Rightarrow> None
             | Some (k, after_key) \<Rightarrow>
                 (case skip_ws after_key of
                    [] \<Rightarrow> None
                  | c # cs \<Rightarrow>
                      if c \<noteq> CHR '':'' then None
                      else
                        (case parse_value n cs of
                           None \<Rightarrow> None
                         | Some (v, rest) \<Rightarrow>
                             (case skip_ws rest of
                                [] \<Rightarrow> None
                              | d # ds \<Rightarrow>
                                  if d = CHR ''}'' then Some ([(k, v)], ds)
                                  else if d = CHR '','' then
                                    (case parse_members n ds of
                                       None \<Rightarrow> None
                                     | Some (ms, rest') \<Rightarrow> Some ((k, v) # ms, rest'))
                                  else None)))))"

definition JSON_parse :: "string \<Rightarrow> json option" where
  "JSON_parse s =
     (case parse_value (2 * length s + 1) s of
        None \<Rightarrow> None
      | Some (v, rest) \<Rightarrow> if skip_ws rest = [] then Some v else None)"

subsection \<open>Measures for reasoning about the reader\<close>

text \<open>
  The fuel that reading back a value needs; where a number may end; and what can
  follow a value inside an array or an object.
\<close>

fun weight :: "json \<Rightarrow> nat"
  and weight_elems :: "json list \<Rightarrow> nat"
  and weight_members :: "(string \<times> json) list \<Rightarrow> nat"
where
  "weight JNull = 1"
| "weight (JBool b) = 1"
| "weight (JNum n) = 1"
| "weight (JStr s) = 1"
| "weight (JArr vs) = 1 + weight_elems vs"
| "weight (JObj ms) = 1 + weight_members ms"
| "weight_elems [] = 0"
| "weight_elems (v # vs) = 1 + weight v + weight_elems vs"
| "weight_members [] = 0"
| "weight_members ((k, v) # ms) = 1 + weight v + weight_members ms"

definition value_start :: "char \<Rightarrow> bool" where
  "value_start c = (\<not> is_ws c \<and> c \<noteq> CHR '']'' \<and> c \<noteq> CHR ''}'')"

definition no_digit_ahead :: "string \<Rightarrow> bool" where
  "no_digit_ahead r = (case r of [] \<Rightarrow> True | c # cs \<Rightarrow> digit_val c = None)"

definition number_ends :: "string \<Rightarrow> bool" where
  "number_ends r = (no_digit_ahead r \<and> \<not> fraction_follows r)"

definition after_value :: "string \<Rightarrow> bool" where
  "after_value r = (case r of [] \<Rightarrow> True | c # cs \<Rightarrow> c = CHR '','' \<or> c = CHR '']'' \<or> c = CHR ''}'')"

section \<open>The world of a request: Redis, the document store, the log, the trace\<close>

text \<open>
  A thrown JavaScript error, with its message.
\<close>

datatype error = Error string

fun error_message :: "error \<Rightarrow> string" where
  "error_message (Error m) = m"

type_synonym doc = "(string \<times> json) list"

text \<open>
  The trace lists, in the order they are issued, the commands a handler sends to Redis
  and to the document store, and the response it writes. A command is listed when it
  is issued, whether it then succeeds or fails.
\<close>

datatype event =
    RedisGet string
  | RedisSetex string nat string
  | RedisDel string
  | DbFind string doc "(string \<times> int) list"
  | DbFindById string string
  | DbSave string doc
  | DbFindByIdAndDelete string string
  | DbPopulate string
  | Respond nat json

datatype log_entry =
    LogInfo string
  | LogError string error

text \<open>A stored Redis string with the time (in seconds) at which it expires.\<close>

record entry =
  payload :: string
  expires_at :: nat

text \<open>
  \<open>cache\<close> is the Redis keyspace and \<open>clock\<close> the time in seconds; \<open>db\<close> maps a
  model name to the documents of its collection. The \<open>fault\<close> fields are the
  environment: when one is \<open>Some e\<close>, the commands of that kind reject with \<open>e\<close>
  during this request (for \<^verbatim>\<open>DEL\<close>, per key).
\<close>

record world =
  cache :: "string \<Rightarrow> entry option"
  clock :: nat
  redis_get_fault :: "error option"
  redis_setex_fault :: "error option"
  redis_del_fault :: "string \<Rightarrow> error option"
  db :: "string \<Rightarrow> doc list"
  next_oid :: nat
  find_fault :: "error option"
  save_fault :: "error option"
  remove_fault :: "error option"
  populate_fault :: "error option"
  events :: "event list"
  logs :: "log_entry list"

record request =
  req_params_id :: string
  req_query :: "(string \<times> json) list"
  req_body :: "(string \<times> json) list"

record response =
  status :: nat
  body :: json

subsection \<open>Awaited computations: state passing with exceptions\<close>

type_synonym 'a io = "world \<Rightarrow> (error + 'a) \<times> world"

definition ret :: "'a \<Rightarrow> 'a io" where
  "ret x = (\<lambda>w. (Inr x, w))"

definition throw :: "error \<Rightarrow> 'a io" where
  "throw e = (\<lambda>w. (Inl e, w))"

definition await :: "'a io \<Rightarrow> ('a \<Rightarrow> 'b io) \<Rightarrow> 'b io" where
  "await m f = (\<lambda>w. case m w of (Inl e, w') \<Rightarrow> (Inl e, w') | (Inr x, w') \<Rightarrow> f x w')"

definition try_catch :: "'a io \<Rightarrow> (error \<Rightarrow> 'a io) \<Rightarrow> 'a io" where
  "try_catch m h = (\<lambda>w. case m w of (Inl e, w') \<Rightarrow> h e w' | (Inr x, w') \<Rightarrow> (Inr x, w'))"

definition emit :: "event \<Rightarrow> world \<Rightarrow> world" where
  "emit ev w = w\<lparr>events := events w @ [ev]\<rparr>"

subsection \<open>The logger\<close>

definition logger_info :: "string \<Rightarrow> unit io" where
  "logger_info msg = (\<lambda>w. (Inr (), w\<lparr>logs := logs w @ [LogInfo msg]\<rparr>))"

definition logger_error :: "string \<Rightarrow> error \<Rightarrow> unit io" where
  "logger_error msg e = (\<lambda>w. (Inr (), w\<lparr>logs := logs w @ [LogError msg e]\<rparr>))"

subsection \<open>The Redis client\<close>

text \<open>
  \<^verbatim>\<open>GET key\<close> answers the stored string unless the key is absent or expired.
  \<^verbatim>\<open>SETEX key ttl value\<close> stores the string with its expiry.
  \<^verbatim>\<open>DEL key\<close> removes the one key it is given: the key name is taken literally,
  Redis expands no glob pattern in it.
\<close>

definition live :: "world \<Rightarrow> string \<Rightarrow> string option" where
  "live w k =
     (case cache w k of
        None \<Rightarrow> None
      | Some en \<Rightarrow> if clock w < expires_at en then Some (payload en) else None)"

definition redis_get :: "string \<Rightarrow> string option io" where
  "redis_get k = (\<lambda>w.
     case redis_get_fault w of
       Some e \<Rightarrow> (Inl e, emit (RedisGet k) w)
     | None \<Rightarrow> (Inr (live w k), emit (RedisGet k) w))"

definition redis_setex :: "string \<Rightarrow> nat \<Rightarrow> string \<Rightarrow> unit io" where
  "redis_setex k ttl v = (\<lambda>w.
     case redis_setex_fault w of
       Some e \<Rightarrow> (Inl e, emit (RedisSetex k ttl v) w)
     | None \<Rightarrow>
         (Inr (),
          emit (RedisSetex k ttl v)
            (w\<lparr>cache := (cache w)(k \<mapsto> \<lparr>payload = v, expires_at = clock w + ttl\<rparr>)\<rparr>)))"

definition redis_del :: "string \<Rightarrow> unit io" where
  "redis_del k = (\<lambda>w.
     case redis_del_fault w k of
       Some e \<Rightarrow> (Inl e, emit (RedisDel k) w)
     | None \<Rightarrow> (Inr (), emit (RedisDel k) (w\<lparr>cache := (cache w)(k := None)\<rparr>)))"

subsection \<open>\<^verbatim>\<open>JSON.parse\<close> and \<^verbatim>\<open>res.json\<close> as computations\<close>

definition JSON_parse_io :: "string \<Rightarrow> json io" where
  "JSON_parse_io s =
     (case JSON_parse s of
        None \<Rightarrow> throw (Error ''Unexpected token in JSON'')
      | Some v \<Rightarrow> ret v)"

definition res_status_json :: "nat \<Rightarrow> json \<Rightarrow> response io" where
  "res_status_json code v = (\<lambda>w. (Inr \<lparr>status = code, body = v\<rparr>, emit (Respond code v) w))"

definition res_json :: "json \<Rightarrow> response io" where
  "res_json v = res_status_json 200 v"

definition message :: "string \<Rightarrow> json" where
  "message m = JObj [(''message'', JStr m)]"

subsection \<open>The document store, through Mongoose\<close>

text \<open>
  A collection is the list of its documents; a document carries its identifier in
  the property \<^verbatim>\<open>_id\<close>. A filter selects the documents whose properties equal the
  filter's. The ordering that \<^verbatim>\<open>sort\<close> asks for and the population of references
  are the store's business: the model passes the request on (it is in the trace) and
  answers the matching documents as stored.
\<close>

definition doc_id :: "doc \<Rightarrow> json option" where
  "doc_id d = map_of d ''_id''"

definition matches :: "doc \<Rightarrow> doc \<Rightarrow> bool" where
  "matches flt d = list_all (\<lambda>(k, v). map_of d k = Some v) flt"

definition Model_find :: "string \<Rightarrow> doc \<Rightarrow> (string \<times> int) list \<Rightarrow> doc list io" where
  "Model_find model flt srt = (\<lambda>w.
     case find_fault w of
       Some e \<Rightarrow> (Inl e, emit (DbFind model flt srt) w)
     | None \<Rightarrow> (Inr (filter (matches flt) (db w model)), emit (DbFind model flt srt) w))"

definition Model_findById :: "string \<Rightarrow> string \<Rightarrow> doc option io" where
  "Model_findById model oid = (\<lambda>w.
     case find_fault w of
       Some e \<Rightarrow> (Inl e, emit (DbFindById model oid) w)
     | None \<Rightarrow>
         (Inr (find (\<lambda>d. doc_id d = Some (JStr oid)) (db w model)),
          emit (DbFindById model oid) w))"

text \<open>
  \<^verbatim>\<open>new Model({...})\<close>: the properties that are not \<^verbatim>\<open>undefined\<close>, under a fresh
  identifier.
\<close>

fun defined_props :: "(string \<times> json option) list \<Rightarrow> doc" where
  "defined_props [] = []"
| "defined_props ((k, None) # ps) = defined_props ps"
| "defined_props ((k, Some v) # ps) = (k, v) # defined_props ps"

definition Model_new :: "(string \<times> json option) list \<Rightarrow> doc io" where
  "Model_new props = (\<lambda>w.
     (Inr ((''_id'', JStr (show_nat (next_oid w))) # defined_props props),
      w\<lparr>next_oid := Suc (next_oid w)\<rparr>))"

text \<open>\<^verbatim>\<open>doc.save()\<close>: replace the stored document of the same identifier, or insert.\<close>

fun upsert :: "doc \<Rightarrow> doc list \<Rightarrow> doc list" where
  "upsert d [] = [d]"
| "upsert d (x # xs) = (if doc_id x = doc_id d then d # xs else x # upsert d xs)"

definition doc_save :: "string \<Rightarrow> doc \<Rightarrow> unit io" where
  "doc_save model d = (\<lambda>w.
     case save_fault w of
       Some e \<Rightarrow> (Inl e, emit (DbSave model d) w)
     | None \<Rightarrow>
         (Inr (), emit (DbSave model d) (w\<lparr>db := (db w)(model := upsert d (db w model))\<rparr>)))"

definition Model_findByIdAndDelete :: "string \<Rightarrow> string \<Rightarrow> doc option io" where
  "Model_findByIdAndDelete model oid = (\<lambda>w.
     case remove_fault w of
       Some e \<Rightarrow> (Inl e, emit (DbFindByIdAndDelete model oid) w)
     | None \<Rightarrow>
         (case find (\<lambda>d. doc_id d = Some (JStr oid)) (db w model) of
            None \<Rightarrow> (Inr None, emit (DbFindByIdAndDelete model oid) w)
          | Some d \<Rightarrow>
              (Inr (Some d),
               emit (DbFindByIdAndDelete model oid)
                 (w\<lparr>db := (db w)(model := remove1 d (db w model))\<rparr>))))"

definition doc_populate :: "string \<Rightarrow> doc \<Rightarrow> doc io" where
  "doc_populate model d = (\<lambda>w.
     case populate_fault w of
       Some e \<Rightarrow> (Inl e, emit (DbPopulate model) w)
     | None \<Rightarrow> (Inr d, emit (DbPopulate model) w))"

text \<open>
  \<^verbatim>\<open>updates.forEach((update) => doc[update] = req.body[update])\<close>
\<close>

fun assign_updates :: "string list \<Rightarrow> (string \<times> json) list \<Rightarrow> doc \<Rightarrow> doc" where
  "assign_updates [] b d = d"
| "assign_updates (u # us) b d =
     assign_updates us b (case map_of b u of None \<Rightarrow> d | Some v \<Rightarrow> set_prop u v d)"

text \<open>A property name computed from a value: \<^verbatim>\<open>sort[sortBy]\<close>.\<close>

fun to_property_key :: "json \<Rightarrow> string"
  and join_keys :: "json list \<Rightarrow> string"
where
  "to_property_key JNull = ''null''"
| "to_property_key (JBool b) = (if b then ''true'' else ''false'')"
| "to_property_key (JNum n) = show_int n"
| "to_property_key (JStr s) = s"
| "to_property_key (JArr vs) = join_keys vs"
| "to_property_key (JObj ms) = ''[object Object]''"
| "join_keys [] = []"
| "join_keys [v] = (if v = JNull then [] else to_property_key v)"
| "join_keys (v # w # vs) =
     (if v = JNull then [] else to_property_key v) @ '','' @ join_keys (w # vs)"

text \<open>\<^verbatim>\<open>[...].includes(x)\<close> for a list of string literals.\<close>

fun includes_value :: "string list \<Rightarrow> json option \<Rightarrow> bool" where
  "includes_value xs (Some (JStr s)) = (s \<in> set xs)"
| "includes_value xs v = False"

section \<open>The transfers routes\<close>

definition transfers_get_all :: "request \<Rightarrow> response io" where
  "transfers_get_all req =
     try_catch
       (let sortBy = map_of (req_query req) ''sortBy'';
            sortOrder = map_of (req_query req) ''sortOrder'';
            season = map_of (req_query req) ''season'';
            transferType = map_of (req_query req) ''transferType'';
            flt0 = [];
            sort0 = [(''transferDate'', - 1)];
            flt1 = (if truthy season then set_prop ''season'' (the season) flt0 else flt0);
            flt2 = (if truthy transferType
                    then set_prop ''transferType'' (the transferType) flt1 else flt1);
            sort1 =
              (if truthy sortBy then
                 (let order = (if sortOrder = Some (JStr ''asc'') then 1 else - 1) in
                  if sortBy = Some (JStr ''player.name'') then set_prop ''player.name'' order sort0
                  else if sortBy = Some (JStr ''fromTeam.name'')
                    then set_prop ''fromTeam.name'' order sort0
                  else if sortBy = Some (JStr ''toTeam.name'')
                    then set_prop ''toTeam.name'' order sort0
                  else set_prop (to_property_key (the sortBy)) order sort0)
               else sort0);
            cacheKey = ''transfers:'' @ JSON_stringify (JObj (req_query req))
        in
        await (logger_info (''Attempting to get transfers from cache for key: '' @ cacheKey)) (\<lambda>_.
        await
          (try_catch
             (await (redis_get cacheKey) (\<lambda>cachedTransfers.
                if truthy_string cachedTransfers then
                  await (logger_info ''Successfully retrieved cached transfers.'') (\<lambda>_.
                  await (JSON_parse_io (the cachedTransfers)) (\<lambda>parsed.
                  await (res_json parsed) (\<lambda>r. ret (Some r))))
                else ret None))
             (\<lambda>cacheError.
                await (logger_error (''Error parsing cached transfers for key '' @ cacheKey @ '':'')
                         cacheError) (\<lambda>_.
                ret None)))
          (\<lambda>returned.
             case returned of
               Some r \<Rightarrow> ret r
             | None \<Rightarrow>
                 await (logger_info ''Attempting to fetch transfers from database...'') (\<lambda>_.
                 await (Model_find ''Transfer'' flt2 sort1) (\<lambda>transfers.
                 await (logger_info (''Successfully fetched '' @ show_nat (length transfers)
                          @ '' transfers from database.'')) (\<lambda>_.
                 await (logger_info (''Attempting to cache '' @ show_nat (length transfers)
                          @ '' transfers for key: '' @ cacheKey)) (\<lambda>_.
                 await (redis_setex cacheKey 3600 (JSON_stringify (JArr (map JObj transfers)))) (\<lambda>_.
                 await (logger_info (''Successfully cached transfers for key: '' @ cacheKey)) (\<lambda>_.
                 res_json (JArr (map JObj transfers)))))))))))
       (\<lambda>error.
          await (logger_error ''Error fetching transfers:'' error) (\<lambda>_.
          res_status_json 500 (message ''Error fetching transfers'')))"

definition transfers_get_by_id :: "request \<Rightarrow> response io" where
  "transfers_get_by_id req =
     try_catch
       (let cacheKey = ''transfer:'' @ req_params_id req in
        await
          (try_catch
             (await (redis_get cacheKey) (\<lambda>cachedTransfer.
                if truthy_string cachedTransfer then
                  await (logger_info (''Serving transfer from cache for key: '' @ cacheKey)) (\<lambda>_.
                  await (JSON_parse_io (the cachedTransfer)) (\<lambda>parsed.
                  await (res_json parsed) (\<lambda>r. ret (Some r))))
                else ret None))
             (\<lambda>cacheError.
                await (logger_error (''Error parsing cached transfer for key '' @ cacheKey @ '':'')
                         cacheError) (\<lambda>_.
                ret None)))
          (\<lambda>returned.
             case returned of
               Some r \<Rightarrow> ret r
             | None \<Rightarrow>
                 await (Model_findById ''Transfer'' (req_params_id req)) (\<lambda>transfer.
                 case transfer of
                   None \<Rightarrow> res_status_json 404 (message ''Transfer not found'')
                 | Some t \<Rightarrow>
                     await (redis_setex cacheKey 3600 (JSON_stringify (JObj t))) (\<lambda>_.
                     await (logger_info (''Cached transfer for key: '' @ cacheKey)) (\<lambda>_.
                     res_json (JObj t))))))
       (\<lambda>error.
          await (logger_error ''Error fetching transfer by ID:'' error) (\<lambda>_.
          res_status_json 500 (message ''Error fetching transfer'')))"

definition transfers_post :: "request \<Rightarrow> response io" where
  "transfers_post req =
     try_catch
       (let player = map_of (req_body req) ''player'';
            fromTeam = map_of (req_body req) ''fromTeam'';
            toTeam = map_of (req_body req) ''toTeam'';
            transferDate = map_of (req_body req) ''transferDate'';
            fee = map_of (req_body req) ''fee'';
            transferType = map_of (req_body req) ''transferType'';
            season = map_of (req_body req) ''season''
        in
        if \<not> truthy player \<or> \<not> truthy fromTeam \<or> \<not> truthy toTeam \<or> \<not> truthy transferDate
           \<or> \<not> truthy transferType \<or> \<not> truthy season
        then res_status_json 400 (message
          ''Player, fromTeam, toTeam, transferDate, transferType, and season are required.'')
        else if \<not> includes_value [''Permanent'', ''Loan'', ''Free Transfer'', ''End of Loan'']
                    transferType
        then res_status_json 400 (message ''Invalid transfer type.'')
        else if fee \<noteq> None \<and> not_a_number fee
        then res_status_json 400 (message ''Fee must be a number.'')
        else
          await (Model_new [(''player'', player), (''fromTeam'', fromTeam), (''toTeam'', toTeam),
                   (''transferDate'', transferDate), (''fee'', fee),
                   (''transferType'', transferType), (''season'', season)]) (\<lambda>newTransfer.
          await (doc_save ''Transfer'' newTransfer) (\<lambda>_.
          await (redis_del ''transfers:*'') (\<lambda>_.
          await (logger_info ''Invalidated transfers cache after new transfer creation'') (\<lambda>_.
          await (doc_populate ''Transfer'' newTransfer) (\<lambda>populatedTransfer.
          res_status_json 201 (JObj populatedTransfer)))))))
       (\<lambda>error.
          await (logger_error ''Error creating transfer:'' error) (\<lambda>_.
          res_status_json 400 (message (error_message error))))"

definition transfers_patch :: "request \<Rightarrow> response io" where
  "transfers_patch req =
     try_catch
       (let updates = map fst (req_body req);
            allowedUpdates = [''player'', ''fromTeam'', ''toTeam'', ''transferDate'', ''fee'',
                              ''transferType'', ''season''];
            isValidOperation = list_all (\<lambda>update. update \<in> set allowedUpdates) updates
        in
        if \<not> isValidOperation then res_status_json 400 (message ''Invalid updates!'')
        else if truthy (map_of (req_body req) ''transferType'')
                \<and> \<not> includes_value [''Permanent'', ''Loan'', ''Free Transfer'', ''End of Loan'']
                      (map_of (req_body req) ''transferType'')
        then res_status_json 400 (message ''Invalid transfer type.'')
        else if map_of (req_body req) ''fee'' \<noteq> None \<and> not_a_number (map_of (req_body req) ''fee'')
        then res_status_json 400 (message ''Fee must be a number.'')
        else
          await (Model_findById ''Transfer'' (req_params_id req)) (\<lambda>found.
          case found of
            None \<Rightarrow> res_status_json 404 (message ''Transfer not found'')
          | Some transfer0 \<Rightarrow>
              (let transfer = assign_updates updates (req_body req) transfer0 in
               await (doc_save ''Transfer'' transfer) (\<lambda>_.
               await (redis_del (''transfer:'' @ req_params_id req)) (\<lambda>_.
               await (redis_del ''transfers:*'') (\<lambda>_.
               await (logger_info (''Invalidated transfer cache for '' @ req_params_id req
                        @ '' and all transfers cache after update'')) (\<lambda>_.
               await (doc_populate ''Transfer'' transfer) (\<lambda>populatedTransfer.
               res_json (JObj populatedTransfer)))))))))
       (\<lambda>error.
          await (logger_error ''Error updating transfer:'' error) (\<lambda>_.
          res_status_json 400 (message (error_message error))))"

definition transfers_delete :: "request \<Rightarrow> response io" where
  "transfers_delete req =
     try_catch
       (await (Model_findByIdAndDelete ''Transfer'' (req_params_id req)) (\<lambda>transfer.
        case transfer of
          None \<Rightarrow> res_status_json 404 (message ''Transfer not found'')
        | Some t \<Rightarrow>
            await (redis_del (''transfer:'' @ req_params_id req)) (\<lambda>_.
            await (redis_del ''transfers:*'') (\<lambda>_.
            await (logger_info (''Invalidated transfer cache for '' @ req_params_id req
                     @ '' and all transfers cache after deletion'')) (\<lambda>_.
            res_json (message ''Transfer deleted successfully''))))))
       (\<lambda>error.
          await (logger_error ''Error deleting transfer:'' error) (\<lambda>_.
          res_status_json 500 (message ''Error deleting transfer'')))"

section \<open>The players routes\<close>

definition players_get_all :: "request \<Rightarrow> response io" where
  "players_get_all req =
     try_catch
       (let position = map_of (req_query req) ''position'';
            team = map_of (req_query req) ''team'';
            sortBy = map_of (req_query req) ''sortBy'';
            sortOrder = map_of (req_query req) ''sortOrder'';
            cacheKey = ''players:'' @ JSON_stringify (JObj (req_query req))
        in
        await (redis_get cacheKey) (\<lambda>cachedPlayers.
        if truthy_string cachedPlayers then
          await (logger_info (''Serving players from cache for key: '' @ cacheKey)) (\<lambda>_.
          await (JSON_parse_io (the cachedPlayers)) (\<lambda>parsed.
          res_json parsed))
        else
          (let query0 = [];
               sort0 = [];
               query1 = (if truthy position then set_prop ''position'' (the position) query0
                         else query0);
               query2 = (if truthy team then set_prop ''team'' (the team) query1 else query1);
               sort1 =
                 (if truthy sortBy then
                    (let order = (if sortOrder = Some (JStr ''desc'') then - 1 else 1) in
                     set_prop (to_property_key (the sortBy)) order sort0)
                  else set_prop ''name'' 1 sort0)
           in
           await (Model_find ''Player'' query2 sort1) (\<lambda>players.
           await (redis_setex cacheKey 3600 (JSON_stringify (JArr (map JObj players)))) (\<lambda>_.
           await (logger_info (''Cached players for key: '' @ cacheKey)) (\<lambda>_.
           res_json (JArr (map JObj players))))))))
       (\<lambda>error.
          await (logger_error ''Error fetching players:'' error) (\<lambda>_.
          res_status_json 500 (message ''Error fetching players'')))"

definition players_post :: "request \<Rightarrow> response io" where
  "players_post req =
     try_catch
       (let name = map_of (req_body req) ''name'';
            team = map_of (req_body req) ''team'';
            position = map_of (req_body req) ''position'';
            playerNumber = map_of (req_body req) ''playerNumber'';
            photoUrl = map_of (req_body req) ''photoUrl''
        in
        if \<not> truthy name \<or> \<not> truthy team \<or> \<not> truthy position
        then res_status_json 400 (message ''Name, team, and position are required fields.'')
        else
          (let validPositions = [''Goalkeeper'', ''Defender'', ''Midfielder'', ''Forward''] in
           if \<not> includes_value validPositions position
           then res_status_json 400 (message ''Invalid player position.'')
           else if playerNumber \<noteq> None \<and> not_a_number playerNumber
           then res_status_json 400 (message ''Player number must be a number.'')
           else
             await (Model_new [(''name'', name), (''team'', team), (''position'', position),
                      (''playerNumber'', playerNumber), (''photoUrl'', photoUrl)]) (\<lambda>newPlayer.
             await (doc_save ''Player'' newPlayer) (\<lambda>_.
             await (doc_populate ''Player'' newPlayer) (\<lambda>populatedPlayer.
             res_status_json 201 (JObj populatedPlayer))))))
       (\<lambda>error.
          await (logger_error ''Error creating player:'' error) (\<lambda>_.
          res_status_json 400 (message (error_message error))))"

text \<open>
  In the update handler the name \<^verbatim>\<open>validPositions\<close> is not in scope (it is declared
  inside the create handler): evaluating it throws a ReferenceError, which happens
  exactly when \<^verbatim>\<open>req.body.position\<close> is truthy.
\<close>

definition players_patch :: "request \<Rightarrow> response io" where
  "players_patch req =
     try_catch
       (let updates = map fst (req_body req);
            allowedUpdates = [''name'', ''team'', ''position'', ''playerNumber'', ''photoUrl''];
            isValidOperation = list_all (\<lambda>update. update \<in> set allowedUpdates) updates
        in
        if \<not> isValidOperation
        then res_status_json 400 (message
          ''Invalid updates! Only name, team, position, playerNumber, photoUrl are allowed.'')
        else if truthy (map_of (req_body req) ''position'')
        then throw (Error ''validPositions is not defined'')
        else if map_of (req_body req) ''playerNumber'' \<noteq> None
                \<and> not_a_number (map_of (req_body req) ''playerNumber'')
        then res_status_json 400 (message ''Player number must be a number.'')
        else
          await (Model_findById ''Player'' (req_params_id req)) (\<lambda>found.
          case found of
            None \<Rightarrow> res_status_json 404 (message ''Player not found'')
          | Some player0 \<Rightarrow>
              (let player = assign_updates updates (req_body req) player0 in
               await (doc_save ''Player'' player) (\<lambda>_.
               await (doc_populate ''Player'' player) (\<lambda>populatedPlayer.
               res_json (JObj populatedPlayer))))))
       (\<lambda>error.
          await (logger_error ''Error updating player:'' error) (\<lambda>_.
          res_status_json 400 (message (error_message error))))"

definition players_delete :: "request \<Rightarrow> response io" where
  "players_delete req =
     try_catch
       (await (Model_findByIdAndDelete ''Player'' (req_params_id req)) (\<lambda>player.
        case player of
          None \<Rightarrow> res_status_json 404 (message ''Player not found'')
        | Some p \<Rightarrow> res_json (message ''Player deleted successfully'')))
       (\<lambda>error.
          await (logger_error ''Error deleting player:'' error) (\<lambda>_.
          res_status_json 500 (message ''Error deleting player'')))"

section \<open>The teams routes\<close>

definition teams_post :: "request \<Rightarrow> response io" where
  "teams_post req =
     try_catch
       (let name = map_of (req_body req) ''name'';
            code = map_of (req_body req) ''code'';
            crestUrl = map_of (req_body req) ''crestUrl'';
            jerseyUrl = map_of (req_body req) ''jerseyUrl'';
            founded = map_of (req_body req) ''founded''
        in
        if \<not> truthy name \<or> \<not> truthy code
        then res_status_json 400 (message ''Team name and code are required fields.'')
        else if founded \<noteq> None \<and> not_a_number founded
        then res_status_json 400 (message ''Founded year must be a number.'')
        else
          await (Model_new [(''name'', name), (''code'', code), (''crestUrl'', crestUrl),
                   (''jerseyUrl'', jerseyUrl), (''founded'', founded)]) (\<lambda>newTeam.
          await (doc_save ''Team'' newTeam) (\<lambda>_.
          res_status_json 201 (JObj newTeam))))
       (\<lambda>error.
          await (logger_error ''Error creating team:'' error) (\<lambda>_.
          res_status_json 400 (message (error_message error))))"

definition teams_patch :: "request \<Rightarrow> response io" where
  "teams_patch req =
     try_catch
       (let updates = map fst (req_body req);
            allowedUpdates = [''name'', ''code'', ''crestUrl'', ''jerseyUrl'', ''founded''];
            isValidOperation = list_all (\<lambda>update. update \<in> set allowedUpdates) updates
        in
        if \<not> isValidOperation
        then res_status_json 400 (message
          ''Invalid updates! Only name, code, crestUrl, jerseyUrl, founded are allowed.'')
        else if map_of (req_body req) ''founded'' \<noteq> None
                \<and> not_a_number (map_of (req_body req) ''founded'')
        then res_status_json 400 (message ''Founded year must be a number.'')
        else
          await (Model_findById ''Team'' (req_params_id req)) (\<lambda>found.
          case found of
            None \<Rightarrow> res_status_json 404 (message ''Team not found'')
          | Some team0 \<Rightarrow>
              (let team = assign_updates updates (req_body req) team0 in
               await (doc_save ''Team'' team) (\<lambda>_.
               res_json (JObj team)))))
       (\<lambda>error.
          await (logger_error ''Error updating team:'' error) (\<lambda>_.
          res_status_json 400 (message (error_message error))))"

definition teams_delete :: "request \<Rightarrow> response io" where
  "teams_delete req =
     try_catch
       (await (Model_findByIdAndDelete ''Team'' (req_params_id req)) (\<lambda>team.
        case team of
          None \<Rightarrow> res_status_json 404 (message ''Team not found'')
        | Some t \<Rightarrow> res_json (message ''Team deleted successfully'')))
       (\<lambda>error.
          await (logger_error ''Error deleting team:'' error) (\<lambda>_.
          res_status_json 500 (message ''Error deleting team'')))"

section \<open>The standings routes\<close>

definition standings_post :: "request \<Rightarrow> response io" where
  "standings_post req =
     try_catch
       (let team = map_of (req_body req) ''team'';
            played = map_of (req_body req) ''played'';
            wins = map_of (req_body req) ''wins'';
            draws = map_of (req_body req) ''draws'';
            losses = map_of (req_body req) ''losses'';
            goalsFor = map_of (req_body req) ''goalsFor'';
            goalsAgainst = map_of (req_body req) ''goalsAgainst'';
            goalDifference = map_of (req_body req) ''goalDifference'';
            points = map_of (req_body req) ''points''
        in
        if \<not> truthy team \<or> played = None \<or> wins = None \<or> draws = None \<or> losses = None
           \<or> goalsFor = None \<or> goalsAgainst = None \<or> goalDifference = None \<or> points = None
        then res_status_json 400 (message ''All standing fields are required.'')
        else if not_a_number played \<or> not_a_number wins \<or> not_a_number draws
                \<or> not_a_number losses \<or> not_a_number goalsFor \<or> not_a_number goalsAgainst
                \<or> not_a_number goalDifference \<or> not_a_number points
        then res_status_json 400 (message ''Standing fields must be numbers.'')
        else
          await (Model_new [(''team'', team), (''played'', played), (''wins'', wins),
                   (''draws'', draws), (''losses'', losses), (''goalsFor'', goalsFor),
                   (''goalsAgainst'', goalsAgainst), (''goalDifference'', goalDifference),
                   (''points'', points)]) (\<lambda>newStanding.
          await (doc_save ''Standing'' newStanding) (\<lambda>_.
          res_status_json 201 (JObj newStanding))))
       (\<lambda>error.
          await (logger_error ''Error creating standing:'' error) (\<lambda>_.
          res_status_json 400 (message (error_message error))))"

text \<open>
  The loop over the updates answers at the first field whose value is not a number,
  the field \<^verbatim>\<open>team\<close> apart.
\<close>

fun first_non_number :: "string list \<Rightarrow> (string \<times> json) list \<Rightarrow> string option" where
  "first_non_number [] b = None"
| "first_non_number (u # us) b =
     (if not_a_number (map_of b u) \<and> u \<noteq> ''team'' then Some u else first_non_number us b)"

definition standings_patch :: "request \<Rightarrow> response io" where
  "standings_patch req =
     try_catch
       (let updates = map fst (req_body req);
            allowedUpdates = [''team'', ''played'', ''wins'', ''draws'', ''losses'', ''goalsFor'',
                              ''goalsAgainst'', ''goalDifference'', ''points''];
            isValidOperation = list_all (\<lambda>update. update \<in> set allowedUpdates) updates
        in
        if \<not> isValidOperation then res_status_json 400 (message ''Invalid updates!'')
        else
          (case first_non_number updates (req_body req) of
             Some update \<Rightarrow>
               res_status_json 400 (message (''Field '' @ update @ '' must be a number.''))
           | None \<Rightarrow>
               await (Model_findById ''Standing'' (req_params_id req)) (\<lambda>found.
               case found of
                 None \<Rightarrow> res_status_json 404 (message ''Standing not found'')
               | Some standing0 \<Rightarrow>
                   (let standing = assign_updates updates (req_body req) standing0 in
                    await (doc_save ''Standing'' standing) (\<lambda>_.
                    res_json (JObj standing))))))
       (\<lambda>error.
          await (logger_error ''Error updating standing:'' error) (\<lambda>_.
          res_status_json 400 (message (error_message error))))"

definition standings_delete :: "request \<Rightarrow> response io" where
  "standings_delete req =
     try_catch
       (await (Model_findByIdAndDelete ''Standing'' (req_params_id req)) (\<lambda>standing.
        case standing of
          None \<Rightarrow> res_status_json 404 (message ''Standing not found'')
        | Some st \<Rightarrow> res_json (message ''Standing deleted successfully'')))
       (\<lambda>error.
          await (logger_error ''Error deleting standing:'' error) (\<lambda>_.
          res_status_json 500 (message ''Error deleting standing'')))"

section \<open>The fixtures routes\<close>

definition fixtures_post :: "request \<Rightarrow> response io" where
  "fixtures_post req =
     try_catch
       (let matchweek = map_of (req_body req) ''matchweek'';
            date = map_of (req_body req) ''date'';
            time = map_of (req_body req) ''time'';
            venue = map_of (req_body req) ''venue'';
            teamA = map_of (req_body req) ''teamA'';
            teamB = map_of (req_body req) ''teamB'';
            fixture_status = map_of (req_body req) ''status'';
            teamsheets = map_of (req_body req) ''teamsheets''
        in
        if \<not> truthy matchweek \<or> \<not> truthy date \<or> \<not> truthy time \<or> \<not> truthy venue
           \<or> \<not> truthy teamA \<or> \<not> truthy teamB
        then res_status_json 400 (message
          ''Matchweek, date, time, venue, Team A, and Team B are required.'')
        else
          await (Model_new [(''matchweek'', matchweek), (''date'', date), (''time'', time),
                   (''venue'', venue), (''teamA'', teamA), (''teamB'', teamB),
                   (''status'', fixture_status), (''teamsheets'', teamsheets)]) (\<lambda>newFixture.
          await (doc_save ''Fixture'' newFixture) (\<lambda>_.
          res_status_json 201 (JObj newFixture))))
       (\<lambda>error.
          await (logger_error ''Error creating fixture:'' error) (\<lambda>_.
          res_status_json 400 (message (error_message error))))"

definition fixtures_patch :: "request \<Rightarrow> response io" where
  "fixtures_patch req =
     try_catch
       (let updates = map fst (req_body req);
            allowedUpdates = [''matchweek'', ''date'', ''time'', ''venue'', ''teamA'', ''teamB'',
                              ''status'', ''teamsheets''];
            isValidOperation = list_all (\<lambda>update. update \<in> set allowedUpdates) updates
        in
        if \<not> isValidOperation then res_status_json 400 (message ''Invalid updates!'')
        else
          await (Model_findById ''Fixture'' (req_params_id req)) (\<lambda>found.
          case found of
            None \<Rightarrow> res_status_json 404 (message ''Fixture not found'')
          | Some fixture0 \<Rightarrow>
              (let fixture = assign_updates updates (req_body req) fixture0 in
               await (doc_save ''Fixture'' fixture) (\<lambda>_.
               res_json (JObj fixture)))))
       (\<lambda>error.
          await (logger_error ''Error updating fixture:'' error) (\<lambda>_.
          res_status_json 400 (message (error_message error))))"

definition fixtures_delete :: "request \<Rightarrow> response io" where
  "fixtures_delete req =
     try_catch
       (await (Model_findByIdAndDelete ''Fixture'' (req_params_id req)) (\<lambda>fixture.
        case fixture of
          None \<Rightarrow> res_status_json 404 (message ''Fixture not found'')
        | Some f \<Rightarrow> res_json (message ''Fixture deleted successfully'')))
       (\<lambda>error.
          await (logger_error ''Error deleting fixture:'' error) (\<lambda>_.
          res_status_json 500 (message ''Error deleting fixture'')))"

section \<open>The awards routes\<close>

definition awards_get_all :: "request \<Rightarrow> response io" where
  "awards_get_all req =
     try_catch
       (let sortBy = map_of (req_query req) ''sortBy'';
            sortOrder = map_of (req_query req) ''sortOrder'';
            season = map_of (req_query req) ''season'';
            recipient = map_of (req_query req) ''recipient'';
            flt0 = [];
            sort0 = [(''dateAwarded'', - 1)];
            flt1 = (if truthy season then set_prop ''season'' (the season) flt0 else flt0);
            flt2 = (if truthy recipient then set_prop ''recipient'' (the recipient) flt1 else flt1);
            sort1 =
              (if truthy sortBy then
                 (let order = (if sortOrder = Some (JStr ''asc'') then 1 else - 1) in
                  if sortBy = Some (JStr ''recipient.name'')
                    then set_prop ''recipient.name'' order sort0
                  else set_prop (to_property_key (the sortBy)) order sort0)
               else sort0);
            cacheKey = ''awards:'' @ JSON_stringify (JObj (req_query req))
        in
        await
          (try_catch
             (await (redis_get cacheKey) (\<lambda>cachedAwards.
                if truthy_string cachedAwards then
                  await (logger_info (''Serving awards from cache for key: '' @ cacheKey)) (\<lambda>_.
                  await (JSON_parse_io (the cachedAwards)) (\<lambda>parsed.
                  await (res_json parsed) (\<lambda>r. ret (Some r))))
                else ret None))
             (\<lambda>cacheError.
                await (logger_error (''Error parsing cached awards for key '' @ cacheKey @ '':'')
                         cacheError) (\<lambda>_.
                ret None)))
          (\<lambda>returned.
             case returned of
               Some r \<Rightarrow> ret r
             | None \<Rightarrow>
                 await (logger_info ''Attempting to fetch awards from database...'') (\<lambda>_.
                 await (Model_find ''Award'' flt2 sort1) (\<lambda>awards.
                 await (logger_info (''Successfully fetched '' @ show_nat (length awards)
                          @ '' awards from database.'')) (\<lambda>_.
                 await (redis_setex cacheKey 3600 (JSON_stringify (JArr (map JObj awards)))) (\<lambda>_.
                 await (logger_info (''Cached awards for key: '' @ cacheKey)) (\<lambda>_.
                 res_json (JArr (map JObj awards)))))))))
       (\<lambda>error.
          await (logger_error ''Error fetching awards:'' error) (\<lambda>_.
          res_status_json 500 (message ''Error fetching awards'')))"

definition awards_get_by_id :: "request \<Rightarrow> response io" where
  "awards_get_by_id req =
     try_catch
       (let cacheKey = ''award:'' @ req_params_id req in
        await (redis_get cacheKey) (\<lambda>cachedAward.
        if truthy_string cachedAward then
          await (logger_info (''Serving award from cache for key: '' @ cacheKey)) (\<lambda>_.
          await (JSON_parse_io (the cachedAward)) (\<lambda>parsed.
          res_json parsed))
        else
          await (Model_findById ''Award'' (req_params_id req)) (\<lambda>award.
          case award of
            None \<Rightarrow> res_status_json 404 (message ''Award not found'')
          | Some a \<Rightarrow>
              await (redis_setex cacheKey 3600 (JSON_stringify (JObj a))) (\<lambda>_.
              await (logger_info (''Cached award for key: '' @ cacheKey)) (\<lambda>_.
              res_json (JObj a))))))
       (\<lambda>error.
          await (logger_error ''Error fetching award by ID:'' error) (\<lambda>_.
          res_status_json 500 (message ''Error fetching award'')))"

definition awards_post :: "request \<Rightarrow> response io" where
  "awards_post req =
     try_catch
       (let title = map_of (req_body req) ''title'';
            description = map_of (req_body req) ''description'';
            recipient = map_of (req_body req) ''recipient'';
            season = map_of (req_body req) ''season'';
            imageUrl = map_of (req_body req) ''imageUrl''
        in
        if \<not> truthy title \<or> \<not> truthy season
        then res_status_json 400 (message ''Award title and season are required.'')
        else
          await (Model_new [(''title'', title), (''description'', description),
                   (''recipient'', recipient), (''season'', season),
                   (''imageUrl'', imageUrl)]) (\<lambda>newAward.
          await (doc_save ''Award'' newAward) (\<lambda>_.
          await (redis_del ''awards:*'') (\<lambda>_.
          await (logger_info ''Invalidated awards cache after new award creation'') (\<lambda>_.
          res_status_json 201 (JObj newAward))))))
       (\<lambda>error.
          await (logger_error ''Error creating award:'' error) (\<lambda>_.
          res_status_json 400 (message (error_message error))))"

definition awards_patch :: "request \<Rightarrow> response io" where
  "awards_patch req =
     try_catch
       (let updates = map fst (req_body req);
            allowedUpdates = [''title'', ''description'', ''recipient'', ''season'',
                              ''dateAwarded'', ''imageUrl''];
            isValidOperation = list_all (\<lambda>update. update \<in> set allowedUpdates) updates
        in
        if \<not> isValidOperation then res_status_json 400 (message ''Invalid updates!'')
        else
          await (Model_findById ''Award'' (req_params_id req)) (\<lambda>found.
          case found of
            None \<Rightarrow> res_status_json 404 (message ''Award not found'')
          | Some award0 \<Rightarrow>
              (let award = assign_updates updates (req_body req) award0 in
               await (doc_save ''Award'' award) (\<lambda>_.
               await (redis_del (''award:'' @ req_params_id req)) (\<lambda>_.
               await (redis_del ''awards:*'') (\<lambda>_.
               await (logger_info (''Invalidated award cache for '' @ req_params_id req
                        @ '' and all awards cache after update'')) (\<lambda>_.
               res_json (JObj award))))))))
       (\<lambda>error.
          await (logger_error ''Error updating award:'' error) (\<lambda>_.
          res_status_json 400 (message (error_message error))))"

definition awards_delete :: "request \<Rightarrow> response io" where
  "awards_delete req =
     try_catch
       (await (Model_findByIdAndDelete ''Award'' (req_params_id req)) (\<lambda>award.
        case award of
          None \<Rightarrow> res_status_json 404 (message ''Award not found'')
        | Some a \<Rightarrow>
            await (redis_del (''award:'' @ req_params_id req)) (\<lambda>_.
            await (redis_del ''awards:*'') (\<lambda>_.
            await (logger_info (''Invalidated award cache for '' @ req_params_id req
                     @ '' and all awards cache after deletion'')) (\<lambda>_.
            res_json (message ''Award deleted successfully''))))))
       (\<lambda>error.
          await (logger_error ''Error deleting award:'' error) (\<lambda>_.
          res_status_json 500 (message ''Error deleting award'')))"

section \<open>The player statistics routes\<close>

definition playerStats_get_all :: "request \<Rightarrow> response io" where
  "playerStats_get_all req =
     try_catch
       (let sortBy = map_of (req_query req) ''sortBy'';
            sortOrder = map_of (req_query req) ''sortOrder'';
            sort0 = [];
            sort1 =
              (if truthy sortBy then
                 (let order = (if sortOrder = Some (JStr ''desc'') then - 1 else 1) in
                  if sortBy = Some (JStr ''player.name'') then set_prop ''player.name'' order sort0
                  else set_prop (to_property_key (the sortBy)) order sort0)
               else
                 set_prop ''player.name'' 1
                   (set_prop ''appearances'' (- 1)
                      (set_prop ''assists'' (- 1) (set_prop ''goals'' (- 1) sort0))));
            cacheKey = ''playerStats:'' @ JSON_stringify (JObj (req_query req))
        in
        await (redis_get cacheKey) (\<lambda>cachedPlayerStats.
        if truthy_string cachedPlayerStats then
          await (logger_info (''Serving player stats from cache for key: '' @ cacheKey)) (\<lambda>_.
          await (JSON_parse_io (the cachedPlayerStats)) (\<lambda>parsed.
          res_json parsed))
        else
          await (Model_find ''PlayerStat'' [] sort1) (\<lambda>playerStats.
          await (redis_setex cacheKey 3600 (JSON_stringify (JArr (map JObj playerStats)))) (\<lambda>_.
          await (logger_info (''Cached player stats for key: '' @ cacheKey)) (\<lambda>_.
          res_json (JArr (map JObj playerStats)))))))
       (\<lambda>error.
          await (logger_error ''Error fetching player statistics:'' error) (\<lambda>_.
          res_status_json 500 (message ''Error fetching player statistics'')))"

definition playerStats_get_by_id :: "request \<Rightarrow> response io" where
  "playerStats_get_by_id req =
     try_catch
       (let cacheKey = ''playerStat:'' @ req_params_id req in
        await (redis_get cacheKey) (\<lambda>cachedPlayerStat.
        if truthy_string cachedPlayerStat then
          await (logger_info (''Serving player stat from cache for key: '' @ cacheKey)) (\<lambda>_.
          await (JSON_parse_io (the cachedPlayerStat)) (\<lambda>parsed.
          res_json parsed))
        else
          await (Model_findById ''PlayerStat'' (req_params_id req)) (\<lambda>playerStat.
          case playerStat of
            None \<Rightarrow> res_status_json 404 (message ''Player statistic not found'')
          | Some ps \<Rightarrow>
              await (redis_setex cacheKey 3600 (JSON_stringify (JObj ps))) (\<lambda>_.
              await (logger_info (''Cached player stat for key: '' @ cacheKey)) (\<lambda>_.
              res_json (JObj ps))))))
       (\<lambda>error.
          await (logger_error ''Error fetching player statistic by ID:'' error) (\<lambda>_.
          res_status_json 500 (message ''Error fetching player statistic'')))"

definition playerStats_post :: "request \<Rightarrow> response io" where
  "playerStats_post req =
     try_catch
       (let player = map_of (req_body req) ''player'';
            goals = map_of (req_body req) ''goals'';
            assists = map_of (req_body req) ''assists'';
            appearances = map_of (req_body req) ''appearances'';
            minutesPlayed = map_of (req_body req) ''minutesPlayed'';
            cleanSheets = map_of (req_body req) ''cleanSheets'';
            yellowCards = map_of (req_body req) ''yellowCards'';
            redCards = map_of (req_body req) ''redCards''
        in
        if \<not> truthy player
        then res_status_json 400 (message ''Player ID is required.'')
        else
          await (Model_new [(''player'', player), (''goals'', goals), (''assists'', assists),
                   (''appearances'', appearances), (''minutesPlayed'', minutesPlayed),
                   (''cleanSheets'', cleanSheets), (''yellowCards'', yellowCards),
                   (''redCards'', redCards)]) (\<lambda>newPlayerStat.
          await (doc_save ''PlayerStat'' newPlayerStat) (\<lambda>_.
          await (redis_del ''playerStats:*'') (\<lambda>_.
          await (logger_info ''Invalidated player stats cache after new stat creation'') (\<lambda>_.
          res_status_json 201 (JObj newPlayerStat))))))
       (\<lambda>error.
          await (logger_error ''Error creating player statistic:'' error) (\<lambda>_.
          res_status_json 400 (message (error_message error))))"

definition playerStats_patch :: "request \<Rightarrow> response io" where
  "playerStats_patch req =
     try_catch
       (let updates = map fst (req_body req);
            allowedUpdates = [''goals'', ''assists'', ''appearances'', ''minutesPlayed'',
                              ''cleanSheets'', ''yellowCards'', ''redCards''];
            isValidOperation = list_all (\<lambda>update. update \<in> set allowedUpdates) updates
        in
        if \<not> isValidOperation then res_status_json 400 (message ''Invalid updates!'')
        else
          await (Model_findById ''PlayerStat'' (req_params_id req)) (\<lambda>found.
          case found of
            None \<Rightarrow> res_status_json 404 (message ''Player statistic not found'')
          | Some playerStat0 \<Rightarrow>
              (let playerStat = assign_updates updates (req_body req) playerStat0 in
               await (doc_save ''PlayerStat'' playerStat) (\<lambda>_.
               await (redis_del (''playerStat:'' @ req_params_id req)) (\<lambda>_.
               await (redis_del ''playerStats:*'') (\<lambda>_.
               await (logger_info (''Invalidated player stat cache for '' @ req_params_id req
                        @ '' and all player stats cache after update'')) (\<lambda>_.
               res_json (JObj playerStat))))))))
       (\<lambda>error.
          await (logger_error ''Error updating player statistic:'' error) (\<lambda>_.
          res_status_json 400 (message (error_message error))))"

definition playerStats_delete :: "request \<Rightarrow> response io" where
  "playerStats_delete req =
     try_catch
       (await (Model_findByIdAndDelete ''PlayerStat'' (req_params_id req)) (\<lambda>playerStat.
        case playerStat of
          None \<Rightarrow> res_status_json 404 (message ''Player statistic not found'')
        | Some ps \<Rightarrow>
            await (redis_del (''playerStat:'' @ req_params_id req)) (\<lambda>_.
            await (redis_del ''playerStats:*'') (\<lambda>_.
            await (logger_info (''Invalidated player stat cache for '' @ req_params_id req
                     @ '' and all player stats cache after deletion'')) (\<lambda>_.
            res_json (message ''Player statistic deleted successfully''))))))
       (\<lambda>error.
          await (logger_error ''Error deleting player statistic:'' error) (\<lambda>_.
          res_status_json 500 (message ''Error deleting player statistic'')))"

section \<open>The news routes\<close>

definition news_get_all :: "request \<Rightarrow> response io" where
  "news_get_all req =
     try_catch
       (let sortBy = map_of (req_query req) ''sortBy'';
            sortOrder = map_of (req_query req) ''sortOrder'';
            type = map_of (req_query req) ''type'';
            player = map_of (req_query req) ''player'';
            team = map_of (req_query req) ''team'';
            flt0 = [];
            sort0 = [(''date'', - 1)];
            flt1 = (if truthy type then set_prop ''type'' (the type) flt0 else flt0);
            flt2 = (if truthy player then set_prop ''player'' (the player) flt1 else flt1);
            flt3 = (if truthy team then set_prop ''team'' (the team) flt2 else flt2);
            sort1 =
              (if truthy sortBy then
                 (let order = (if sortOrder = Some (JStr ''asc'') then 1 else - 1) in
                  if sortBy = Some (JStr ''player.name'') then set_prop ''player.name'' order sort0
                  else if sortBy = Some (JStr ''team.name'') then set_prop ''team.name'' order sort0
                  else set_prop (to_property_key (the sortBy)) order sort0)
               else sort0);
            cacheKey = ''news:'' @ JSON_stringify (JObj (req_query req))
        in
        await
          (try_catch
             (await (redis_get cacheKey) (\<lambda>cachedNews.
                if truthy_string cachedNews then
                  await (logger_info (''Serving news from cache for key: '' @ cacheKey)) (\<lambda>_.
                  await (JSON_parse_io (the cachedNews)) (\<lambda>parsed.
                  await (res_json parsed) (\<lambda>r. ret (Some r))))
                else ret None))
             (\<lambda>cacheError.
                await (logger_error (''Error parsing cached news for key '' @ cacheKey @ '':'')
                         cacheError) (\<lambda>_.
                ret None)))
          (\<lambda>returned.
             case returned of
               Some r \<Rightarrow> ret r
             | None \<Rightarrow>
                 await (logger_info ''Attempting to fetch news from database...'') (\<lambda>_.
                 await (Model_find ''News'' flt3 sort1) (\<lambda>news.
                 await (logger_info (''Successfully fetched '' @ show_nat (length news)
                          @ '' news articles from database.'')) (\<lambda>_.
                 await (redis_setex cacheKey 3600 (JSON_stringify (JArr (map JObj news)))) (\<lambda>_.
                 await (logger_info (''Cached news for key: '' @ cacheKey)) (\<lambda>_.
                 res_json (JArr (map JObj news)))))))))
       (\<lambda>error.
          await (logger_error ''Error fetching news:'' error) (\<lambda>_.
          res_status_json 500 (message ''Error fetching news'')))"

definition news_get_by_id :: "request \<Rightarrow> response io" where
  "news_get_by_id req =
     try_catch
       (let cacheKey = ''news:'' @ req_params_id req in
        await
          (try_catch
             (await (redis_get cacheKey) (\<lambda>cachedNewsArticle.
                if truthy_string cachedNewsArticle then
                  await (logger_info (''Serving news article from cache for key: '' @ cacheKey)) (\<lambda>_.
                  await (JSON_parse_io (the cachedNewsArticle)) (\<lambda>parsed.
                  await (res_json parsed) (\<lambda>r. ret (Some r))))
                else ret None))
             (\<lambda>cacheError.
                await (logger_error (''Error parsing cached news article for key '' @ cacheKey
                         @ '':'') cacheError) (\<lambda>_.
                ret None)))
          (\<lambda>returned.
             case returned of
               Some r \<Rightarrow> ret r
             | None \<Rightarrow>
                 await (Model_findById ''News'' (req_params_id req)) (\<lambda>newsArticle.
                 case newsArticle of
                   None \<Rightarrow> res_status_json 404 (message ''News article not found'')
                 | Some n \<Rightarrow>
                     await (redis_setex cacheKey 3600 (JSON_stringify (JObj n))) (\<lambda>_.
                     await (logger_info (''Cached news article for key: '' @ cacheKey)) (\<lambda>_.
                     res_json (JObj n))))))
       (\<lambda>error.
          await (logger_error ''Error fetching news article by ID:'' error) (\<lambda>_.
          res_status_json 500 (message ''Error fetching news article'')))"

definition news_post :: "request \<Rightarrow> response io" where
  "news_post req =
     try_catch
       (let title = map_of (req_body req) ''title'';
            content = map_of (req_body req) ''content'';
            author = map_of (req_body req) ''author'';
            date = map_of (req_body req) ''date'';
            type = map_of (req_body req) ''type'';
            player = map_of (req_body req) ''player'';
            team = map_of (req_body req) ''team'';
            imageUrl = map_of (req_body req) ''imageUrl''
        in
        if \<not> truthy title \<or> \<not> truthy content \<or> \<not> truthy author \<or> \<not> truthy date \<or> \<not> truthy type
        then res_status_json 400 (message ''Title, content, author, date, and type are required.'')
        else if \<not> includes_value [''transfer'', ''milestone'', ''highlight'', ''general'', ''injury'',
                                   ''match_report''] type
        then res_status_json 400 (message ''Invalid news type.'')
        else
          await (Model_new [(''title'', title), (''content'', content), (''author'', author),
                   (''date'', date), (''type'', type), (''player'', player), (''team'', team),
                   (''imageUrl'', imageUrl)]) (\<lambda>newNews.
          await (doc_save ''News'' newNews) (\<lambda>_.
          await (redis_del ''news:*'') (\<lambda>_.
          await (logger_info ''Invalidated news cache after new news creation'') (\<lambda>_.
          await (doc_populate ''News'' newNews) (\<lambda>populatedNews.
          res_status_json 201 (JObj populatedNews)))))))
       (\<lambda>error.
          await (logger_error ''Error creating news:'' error) (\<lambda>_.
          res_status_json 400 (message (error_message error))))"

definition news_patch :: "request \<Rightarrow> response io" where
  "news_patch req =
     try_catch
       (let updates = map fst (req_body req);
            allowedUpdates = [''title'', ''content'', ''author'', ''date'', ''type'', ''player'',
                              ''team'', ''imageUrl''];
            isValidOperation = list_all (\<lambda>update. update \<in> set allowedUpdates) updates
        in
        if \<not> isValidOperation then res_status_json 400 (message ''Invalid updates!'')
        else if truthy (map_of (req_body req) ''type'')
                \<and> \<not> includes_value [''transfer'', ''milestone'', ''highlight'', ''general'',
                                      ''injury'', ''match_report''] (map_of (req_body req) ''type'')
        then res_status_json 400 (message ''Invalid news type.'')
        else
          await (Model_findById ''News'' (req_params_id req)) (\<lambda>found.
          case found of
            None \<Rightarrow> res_status_json 404 (message ''News article not found'')
          | Some newsArticle0 \<Rightarrow>
              (let newsArticle = assign_updates updates (req_body req) newsArticle0 in
               await (doc_save ''News'' newsArticle) (\<lambda>_.
               await (redis_del (''news:'' @ req_params_id req)) (\<lambda>_.
               await (redis_del ''news:*'') (\<lambda>_.
               await (logger_info (''Invalidated news cache for '' @ req_params_id req
                        @ '' and all news cache after update'')) (\<lambda>_.
               await (doc_populate ''News'' newsArticle) (\<lambda>populatedNews.
               res_json (JObj populatedNews)))))))))
       (\<lambda>error.
          await (logger_error ''Error updating news:'' error) (\<lambda>_.
          res_status_json 400 (message (error_message error))))"

definition news_delete :: "request \<Rightarrow> response io" where
  "news_delete req =
     try_catch
       (await (Model_findByIdAndDelete ''News'' (req_params_id req)) (\<lambda>newsArticle.
        case newsArticle of
          None \<Rightarrow> res_status_json 404 (message ''News article not found'')
        | Some n \<Rightarrow>
            await (redis_del (''news:'' @ req_params_id req)) (\<lambda>_.
            await (redis_del ''news:*'') (\<lambda>_.
            await (logger_info (''Invalidated news cache for '' @ req_params_id req
                     @ '' and all news cache after deletion'')) (\<lambda>_.
            res_json (message ''News article deleted successfully''))))))
       (\<lambda>error.
          await (logger_error ''Error deleting news:'' error) (\<lambda>_.
          res_status_json 500 (message ''Error deleting news article'')))"

section \<open>Observations on a handler's run\<close>

text \<open>The events a handler adds to the trace when it serves \<open>req\<close> in the world \<open>w\<close>.\<close>

definition trace_of :: "(request \<Rightarrow> response io) \<Rightarrow> request \<Rightarrow> world \<Rightarrow> event list" where
  "trace_of h req w = drop (length (events w)) (events (snd (h req w)))"

text \<open>The keys of the \<^verbatim>\<open>DEL\<close> commands of a trace, in order.\<close>

fun invalidated_keys :: "event list \<Rightarrow> string list" where
  "invalidated_keys [] = []"
| "invalidated_keys (RedisDel k # evs) = k # invalidated_keys evs"
| "invalidated_keys (ev # evs) = invalidated_keys evs"


text \<open>The expiry times, in seconds, of the \<^verbatim>\<open>SETEX\<close> commands of a trace.\<close>

fun setex_ttls :: "event list \<Rightarrow> nat list" where
  "setex_ttls [] = []"
| "setex_ttls (RedisSetex k t v # evs) = t # setex_ttls evs"
| "setex_ttls (ev # evs) = setex_ttls evs"

text \<open>The number of queries a trace sends to the document store (the loader calls).\<close>

fun loader_calls :: "event list \<Rightarrow> nat" where
  "loader_calls [] = 0"
| "loader_calls (DbFind m f s # evs) = Suc (loader_calls evs)"
| "loader_calls (DbFindById m i # evs) = Suc (loader_calls evs)"
| "loader_calls (ev # evs) = loader_calls evs"

text \<open>A trace that ends in a success response (a status below 400).\<close>

fun succeeded :: "event list \<Rightarrow> bool" where
  "succeeded [] = False"
| "succeeded (Respond c b # evs) = (c < 400 \<or> succeeded evs)"
| "succeeded (ev # evs) = succeeded evs"

text \<open>
  The order of a write: the mutation of the document store, then the invalidation,
  then the response. \<open>write_step\<close> reads a trace event by event and fails (\<open>None\<close>)
  when a \<^verbatim>\<open>DEL\<close> is issued before the mutation, when a success response is written
  before a \<^verbatim>\<open>DEL\<close> was issued, or when anything follows the response.
\<close>

datatype write_phase = Started | Committed | Invalidated | Answered

fun write_step :: "write_phase option \<Rightarrow> event \<Rightarrow> write_phase option" where
  "write_step None ev = None"
| "write_step (Some Answered) ev = None"
| "write_step (Some ph) (DbSave m d) = (if ph = Started then Some Committed else Some ph)"
| "write_step (Some ph) (DbFindByIdAndDelete m i) =
     (if ph = Started then Some Committed else Some ph)"
| "write_step (Some ph) (RedisDel k) = (if ph = Started then None else Some Invalidated)"
| "write_step (Some ph) (Respond c b) =
     (if c < 400 \<and> ph \<noteq> Invalidated then None else Some Answered)"
| "write_step (Some ph) ev = Some ph"

definition write_order :: "event list \<Rightarrow> bool" where
  "write_order tr = (foldl write_step (Some Started) tr = Some Answered)"

text \<open>The answer of a rejected request: status 400, and nothing but the response happens.\<close>

definition rejected :: "string \<Rightarrow> world \<Rightarrow> (error + response) \<times> world" where
  "rejected m w = (Inr \<lparr>status = 400, body = message m\<rparr>, emit (Respond 400 (message m)) w)"

text \<open>An empty world: no cached key, no document, no failing store.\<close>

definition empty_world :: world where
  "empty_world =
     \<lparr>cache = (\<lambda>k. None), clock = 0, redis_get_fault = None, redis_setex_fault = None,
      redis_del_fault = (\<lambda>k. None), db = (\<lambda>m. []), next_oid = 1, find_fault = None,
      save_fault = None, remove_fault = None, populate_fault = None, events = [], logs = []\<rparr>"

text \<open>
  What a write handler with invalidation does, read off the world before and after:
  its trace has the order above; when it answers with success, it has sent a
  \<^verbatim>\<open>DEL\<close> for exactly the given keys; a \<^verbatim>\<open>DEL\<close> is sent only when the mutation of
  the store went through; and every other key of the cache is as before.
\<close>

definition write_summary :: "string list \<Rightarrow> bool \<Rightarrow> world \<Rightarrow> world \<Rightarrow> bool" where
  "write_summary keys committed w w' =
     (write_order (drop (length (events w)) (events w'))
      \<and> (succeeded (drop (length (events w)) (events w')) \<longrightarrow>
           invalidated_keys (drop (length (events w)) (events w')) = keys)
      \<and> (invalidated_keys (drop (length (events w)) (events w')) \<noteq> [] \<longrightarrow> committed)
      \<and> (\<forall>k. k \<in> set keys \<or> cache w' k = cache w k))"

definition invalidation_in_order :: "bool \<Rightarrow> event list \<Rightarrow> bool" where
  "invalidation_in_order committed tr =
     (write_order tr \<and> (invalidated_keys tr = [] \<or> committed))"


section \<open>The routes by entity type\<close>

text \<open>
  The server mounts one router per entity type; each has a create (\<^verbatim>\<open>POST /\<close>), an
  update (\<^verbatim>\<open>PATCH /:id\<close>) and a delete (\<^verbatim>\<open>DELETE /:id\<close>) handler.
\<close>

datatype entity = Team | Player | Fixture | Standing | News | Transfer | Award | PlayerStat

fun create_handler :: "entity \<Rightarrow> request \<Rightarrow> response io" where
  "create_handler Team = teams_post"
| "create_handler Player = players_post"
| "create_handler Fixture = fixtures_post"
| "create_handler Standing = standings_post"
| "create_handler News = news_post"
| "create_handler Transfer = transfers_post"
| "create_handler Award = awards_post"
| "create_handler PlayerStat = playerStats_post"

fun update_handler :: "entity \<Rightarrow> request \<Rightarrow> response io" where
  "update_handler Team = teams_patch"
| "update_handler Player = players_patch"
| "update_handler Fixture = fixtures_patch"
| "update_handler Standing = standings_patch"
| "update_handler News = news_patch"
| "update_handler Transfer = transfers_patch"
| "update_handler Award = awards_patch"
| "update_handler PlayerStat = playerStats_patch"

fun delete_handler :: "entity \<Rightarrow> request \<Rightarrow> response io" where
  "delete_handler Team = teams_delete"
| "delete_handler Player = players_delete"
| "delete_handler Fixture = fixtures_delete"
| "delete_handler Standing = standings_delete"
| "delete_handler News = news_delete"
| "delete_handler Transfer = transfers_delete"
| "delete_handler Award = awards_delete"
| "delete_handler PlayerStat = playerStats_delete"

text \<open>The cache keys of an entity type: one per entity, and the literal collection key.\<close>

fun individual_key :: "entity \<Rightarrow> string \<Rightarrow> string" where
  "individual_key Team oid = ''team:'' @ oid"
| "individual_key Player oid = ''player:'' @ oid"
| "individual_key Fixture oid = ''fixture:'' @ oid"
| "individual_key Standing oid = ''standing:'' @ oid"
| "individual_key News oid = ''news:'' @ oid"
| "individual_key Transfer oid = ''transfer:'' @ oid"
| "individual_key Award oid = ''award:'' @ oid"
| "individual_key PlayerStat oid = ''playerStat:'' @ oid"

fun collection_pattern :: "entity \<Rightarrow> string" where
  "collection_pattern Team = ''teams:*''"
| "collection_pattern Player = ''players:*''"
| "collection_pattern Fixture = ''fixtures:*''"
| "collection_pattern Standing = ''standings:*''"
| "collection_pattern News = ''news:*''"
| "collection_pattern Transfer = ''transfers:*''"
| "collection_pattern Award = ''awards:*''"
| "collection_pattern PlayerStat = ''playerStats:*''"

text \<open>The key under which a list route caches the answer to the query \<open>q\<close>.\<close>

fun collection_key :: "entity \<Rightarrow> (string \<times> json) list \<Rightarrow> string" where
  "collection_key Team q = ''teams:'' @ JSON_stringify (JObj q)"
| "collection_key Player q = ''players:'' @ JSON_stringify (JObj q)"
| "collection_key Fixture q = ''fixtures:'' @ JSON_stringify (JObj q)"
| "collection_key Standing q = ''standings:'' @ JSON_stringify (JObj q)"
| "collection_key News q = ''news:'' @ JSON_stringify (JObj q)"
| "collection_key Transfer q = ''transfers:'' @ JSON_stringify (JObj q)"
| "collection_key Award q = ''awards:'' @ JSON_stringify (JObj q)"
| "collection_key PlayerStat q = ''playerStats:'' @ JSON_stringify (JObj q)"


text \<open>
  The entity types whose write handlers send \<^verbatim>\<open>DEL\<close> commands, and those whose routes
  never use the Redis client.
\<close>

fun invalidating :: "entity \<Rightarrow> bool" where
  "invalidating News = True"
| "invalidating Transfer = True"
| "invalidating Award = True"
| "invalidating PlayerStat = True"
| "invalidating e = False"


text \<open>The allow-list of each update handler, and the message of its rejection.\<close>

fun allowedUpdates :: "entity \<Rightarrow> string list" where
  "allowedUpdates Team = [''name'', ''code'', ''crestUrl'', ''jerseyUrl'', ''founded'']"
| "allowedUpdates Player = [''name'', ''team'', ''position'', ''playerNumber'', ''photoUrl'']"
| "allowedUpdates Fixture =
     [''matchweek'', ''date'', ''time'', ''venue'', ''teamA'', ''teamB'', ''status'', ''teamsheets'']"
| "allowedUpdates Standing =
     [''team'', ''played'', ''wins'', ''draws'', ''losses'', ''goalsFor'', ''goalsAgainst'',
      ''goalDifference'', ''points'']"
| "allowedUpdates News =
     [''title'', ''content'', ''author'', ''date'', ''type'', ''player'', ''team'', ''imageUrl'']"
| "allowedUpdates Transfer =
     [''player'', ''fromTeam'', ''toTeam'', ''transferDate'', ''fee'', ''transferType'', ''season'']"
| "allowedUpdates Award =
     [''title'', ''description'', ''recipient'', ''season'', ''dateAwarded'', ''imageUrl'']"
| "allowedUpdates PlayerStat =
     [''goals'', ''assists'', ''appearances'', ''minutesPlayed'', ''cleanSheets'', ''yellowCards'',
      ''redCards'']"

fun invalid_updates_message :: "entity \<Rightarrow> string" where
  "invalid_updates_message Team =
     ''Invalid updates! Only name, code, crestUrl, jerseyUrl, founded are allowed.''"
| "invalid_updates_message Player =
     ''Invalid updates! Only name, team, position, playerNumber, photoUrl are allowed.''"
| "invalid_updates_message e = ''Invalid updates!''"

section \<open>The cached read routes\<close>

text \<open>
  Nine read handlers look their answer up in Redis first: five list routes and four
  routes that fetch one document by its identifier. Five of them wrap the lookup in a
  \<^verbatim>\<open>try\<close> block of its own (\<open>guarded\<close>).
\<close>

datatype cached_route =
    PlayersList | TransfersList | TransferById | AwardsList | AwardById
  | PlayerStatsList | PlayerStatById | NewsList | NewsById

fun read_handler :: "cached_route \<Rightarrow> request \<Rightarrow> response io" where
  "read_handler PlayersList = players_get_all"
| "read_handler TransfersList = transfers_get_all"
| "read_handler TransferById = transfers_get_by_id"
| "read_handler AwardsList = awards_get_all"
| "read_handler AwardById = awards_get_by_id"
| "read_handler PlayerStatsList = playerStats_get_all"
| "read_handler PlayerStatById = playerStats_get_by_id"
| "read_handler NewsList = news_get_all"
| "read_handler NewsById = news_get_by_id"

fun route_key :: "cached_route \<Rightarrow> request \<Rightarrow> string" where
  "route_key PlayersList req = collection_key Player (req_query req)"
| "route_key TransfersList req = collection_key Transfer (req_query req)"
| "route_key TransferById req = individual_key Transfer (req_params_id req)"
| "route_key AwardsList req = collection_key Award (req_query req)"
| "route_key AwardById req = individual_key Award (req_params_id req)"
| "route_key PlayerStatsList req = collection_key PlayerStat (req_query req)"
| "route_key PlayerStatById req = individual_key PlayerStat (req_params_id req)"
| "route_key NewsList req = collection_key News (req_query req)"
| "route_key NewsById req = individual_key News (req_params_id req)"


fun by_id :: "cached_route \<Rightarrow> bool" where
  "by_id TransferById = True"
| "by_id AwardById = True"
| "by_id PlayerStatById = True"
| "by_id NewsById = True"
| "by_id r = False"

fun route_model :: "cached_route \<Rightarrow> string" where
  "route_model PlayersList = ''Player''"
| "route_model TransfersList = ''Transfer''"
| "route_model TransferById = ''Transfer''"
| "route_model AwardsList = ''Award''"
| "route_model AwardById = ''Award''"
| "route_model PlayerStatsList = ''PlayerStat''"
| "route_model PlayerStatById = ''PlayerStat''"
| "route_model NewsList = ''News''"
| "route_model NewsById = ''News''"

text \<open>The message of a route's 500 answer, and of its 404 answer.\<close>

fun route_error :: "cached_route \<Rightarrow> string" where
  "route_error PlayersList = ''Error fetching players''"
| "route_error TransfersList = ''Error fetching transfers''"
| "route_error TransferById = ''Error fetching transfer''"
| "route_error AwardsList = ''Error fetching awards''"
| "route_error AwardById = ''Error fetching award''"
| "route_error PlayerStatsList = ''Error fetching player statistics''"
| "route_error PlayerStatById = ''Error fetching player statistic''"
| "route_error NewsList = ''Error fetching news''"
| "route_error NewsById = ''Error fetching news article''"


text \<open>
  The document a by-id route asks the store for; a list route always has its (possibly
  empty) list to cache.
\<close>

definition stored :: "cached_route \<Rightarrow> request \<Rightarrow> world \<Rightarrow> doc option" where
  "stored r req w =
     find (\<lambda>d. doc_id d = Some (JStr (req_params_id req))) (db w (route_model r))"

definition has_data :: "cached_route \<Rightarrow> request \<Rightarrow> world \<Rightarrow> bool" where
  "has_data r req w = (if by_id r then stored r req w \<noteq> None else True)"

text \<open>No usable entry under the key: absent, expired, or the empty string.\<close>

definition cache_miss :: "world \<Rightarrow> string \<Rightarrow> bool" where
  "cache_miss w k = (\<not> truthy_string (live w k))"


text \<open>
  What a read handler leaves behind: every \<^verbatim>\<open>SETEX\<close> it sent carries 3600 seconds,
  the clock and the store are as before, and every key of the cache is as before or
  holds an entry that expires 3600 seconds after the request.
\<close>

definition read_summary :: "world \<Rightarrow> world \<Rightarrow> bool" where
  "read_summary w w' =
     (length (events w) \<le> length (events w')
      \<and> list_all (\<lambda>t. t = 3600) (setex_ttls (drop (length (events w)) (events w')))
      \<and> clock w' = clock w
      \<and> db w' = db w
      \<and> (\<forall>k. cache w' k = cache w k
             \<or> (\<exists>v. cache w' k = Some \<lparr>payload = v, expires_at = clock w + 3600\<rparr>)))"

text \<open>A trace without a \<^verbatim>\<open>SETEX\<close>, as every write handler leaves it.\<close>

definition no_population :: "world \<Rightarrow> world \<Rightarrow> bool" where
  "no_population w w' =
     (length (events w) \<le> length (events w')
      \<and> setex_ttls (drop (length (events w)) (events w')) = [])"

text \<open>A property of the world that a computation keeps, whatever it returns.\<close>

definition preserves :: "(world \<Rightarrow> bool) \<Rightarrow> 'a io \<Rightarrow> bool" where
  "preserves I m = (\<forall>w. I w \<longrightarrow> I (snd (m w)))"

section \<open>Sample requests and worlds\<close>

fun status_of :: "error + response \<Rightarrow> nat option" where
  "status_of (Inr r) = Some (status r)"
| "status_of (Inl e) = None"

definition sample_transfer :: "(string \<times> json) list" where
  "sample_transfer =
     [(''player'', JStr ''p1''), (''fromTeam'', JStr ''t1''), (''toTeam'', JStr ''t2''),
      (''transferDate'', JStr ''2024-01-15''), (''fee'', JNum 20),
      (''transferType'', JStr ''Loan''), (''season'', JStr ''2023/2024'')]"

definition create_transfer :: request where
  "create_transfer = \<lparr>req_params_id = [], req_query = [], req_body = sample_transfer\<rparr>"

definition update_transfer :: request where
  "update_transfer = \<lparr>req_params_id = ''1'', req_query = [], req_body = [(''fee'', JNum 25)]\<rparr>"


definition list_transfers :: request where
  "list_transfers = \<lparr>req_params_id = [], req_query = [], req_body = []\<rparr>"


definition one_transfer :: world where
  "one_transfer = snd (transfers_post create_transfer empty_world)\<lparr>events := [], logs := []\<rparr>"


text \<open>
  A world that holds the sample transfer; one where the list of transfers was cached
  while the collection was still empty; and the latter after the sample transfer was
  created.
\<close>

definition cached_empty_list :: world where
  "cached_empty_list = snd (transfers_get_all list_transfers empty_world)"

definition after_create :: world where
  "after_create = snd (transfers_post create_transfer cached_empty_list)"

text \<open>
  The world with the sample transfer while Redis refuses \<^verbatim>\<open>SETEX\<close>, and while it
  refuses both \<^verbatim>\<open>GET\<close> and \<^verbatim>\<open>SETEX\<close>.
\<close>

definition set_outage :: world where
  "set_outage = one_transfer\<lparr>redis_setex_fault := Some (Error ''READONLY'')\<rparr>"





definition forward_then_team :: "(string \<times> json) list" where
  "forward_then_team = [(''position'', JStr ''Forward''), (''team'', JStr ''t1'')]"

definition team_then_forward :: "(string \<times> json) list" where
  "team_then_forward = [(''team'', JStr ''t1''), (''position'', JStr ''Forward'')]"


section \<open>Proof tools\<close>

lemmas io_defs = try_catch_def await_def ret_def throw_def logger_info_def logger_error_def
  redis_get_def redis_setex_def redis_del_def emit_def JSON_parse_io_def res_status_json_def
  res_json_def Model_find_def Model_findById_def Model_new_def doc_save_def
  Model_findByIdAndDelete_def doc_populate_def

text \<open>
  Running a handler forward: what an awaited command does to the world, and how the run
  goes on.
\<close>

lemma run_ret: "ret x w = (Inr x, w)"
  by (simp add: ret_def)

lemma run_throw: "throw e w = (Inl e, w)"
  by (simp add: throw_def)

lemma run_res_status_json:
  "res_status_json c v w = (Inr \<lparr>status = c, body = v\<rparr>, emit (Respond c v) w)"
  by (simp add: res_status_json_def)

lemma run_res_json: "res_json v w = (Inr \<lparr>status = 200, body = v\<rparr>, emit (Respond 200 v) w)"
  by (simp add: res_json_def res_status_json_def)

lemma run_try_catch:
  "try_catch m h w = (case m w of (Inl e, w') \<Rightarrow> h e w' | (Inr x, w') \<Rightarrow> (Inr x, w'))"
  by (simp add: try_catch_def)

lemma await_ret: "await (ret x) f w = f x w"
  by (simp add: await_def ret_def)

lemma await_throw: "await (throw e) f w = (Inl e, w)"
  by (simp add: await_def throw_def)

lemma await_logger_info: "await (logger_info m) f w = f () (w\<lparr>logs := logs w @ [LogInfo m]\<rparr>)"
  by (simp add: await_def logger_info_def)

lemma await_logger_error:
  "await (logger_error m e) f w = f () (w\<lparr>logs := logs w @ [LogError m e]\<rparr>)"
  by (simp add: await_def logger_error_def)

lemma await_res_json: "await (res_json v) f w = f \<lparr>status = 200, body = v\<rparr> (emit (Respond 200 v) w)"
  by (simp add: await_def res_json_def res_status_json_def)

lemma await_redis_get:
  "await (redis_get k) f w =
     (case redis_get_fault w of
        Some e \<Rightarrow> (Inl e, emit (RedisGet k) w)
      | None \<Rightarrow> f (live w k) (emit (RedisGet k) w))"
  by (simp add: await_def redis_get_def split: option.split)

lemma await_redis_setex:
  "await (redis_setex k ttl v) f w =
     (case redis_setex_fault w of
        Some e \<Rightarrow> (Inl e, emit (RedisSetex k ttl v) w)
      | None \<Rightarrow>
          f () (emit (RedisSetex k ttl v)
                 (w\<lparr>cache := (cache w)(k \<mapsto> \<lparr>payload = v, expires_at = clock w + ttl\<rparr>)\<rparr>)))"
  by (simp add: await_def redis_setex_def split: option.split)

lemma await_redis_del:
  "await (redis_del k) f w =
     (case redis_del_fault w k of
        Some e \<Rightarrow> (Inl e, emit (RedisDel k) w)
      | None \<Rightarrow> f () (emit (RedisDel k) (w\<lparr>cache := (cache w)(k := None)\<rparr>)))"
  by (simp add: await_def redis_del_def split: option.split)

lemma await_JSON_parse_io:
  "await (JSON_parse_io s) f w =
     (case JSON_parse s of
        None \<Rightarrow> (Inl (Error ''Unexpected token in JSON''), w)
      | Some v \<Rightarrow> f v w)"
  by (simp add: await_def JSON_parse_io_def ret_def throw_def split: option.split)

lemma await_Model_find:
  "await (Model_find model flt srt) f w =
     (case find_fault w of
        Some e \<Rightarrow> (Inl e, emit (DbFind model flt srt) w)
      | None \<Rightarrow> f (filter (matches flt) (db w model)) (emit (DbFind model flt srt) w))"
  by (simp add: await_def Model_find_def split: option.split)

lemma await_Model_findById:
  "await (Model_findById model oid) f w =
     (case find_fault w of
        Some e \<Rightarrow> (Inl e, emit (DbFindById model oid) w)
      | None \<Rightarrow>
          f (find (\<lambda>d. doc_id d = Some (JStr oid)) (db w model)) (emit (DbFindById model oid) w))"
  by (simp add: await_def Model_findById_def split: option.split)

lemma await_Model_new:
  "await (Model_new props) f w =
     f ((''_id'', JStr (show_nat (next_oid w))) # defined_props props)
       (w\<lparr>next_oid := Suc (next_oid w)\<rparr>)"
  by (simp add: await_def Model_new_def)

lemma await_doc_save:
  "await (doc_save model d) f w =
     (case save_fault w of
        Some e \<Rightarrow> (Inl e, emit (DbSave model d) w)
      | None \<Rightarrow> f () (emit (DbSave model d) (w\<lparr>db := (db w)(model := upsert d (db w model))\<rparr>)))"
  by (simp add: await_def doc_save_def split: option.split)

lemma await_Model_findByIdAndDelete:
  "await (Model_findByIdAndDelete model oid) f w =
     (case remove_fault w of
        Some e \<Rightarrow> (Inl e, emit (DbFindByIdAndDelete model oid) w)
      | None \<Rightarrow>
          (case find (\<lambda>d. doc_id d = Some (JStr oid)) (db w model) of
             None \<Rightarrow> f None (emit (DbFindByIdAndDelete model oid) w)
           | Some d \<Rightarrow>
               f (Some d)
                 (emit (DbFindByIdAndDelete model oid)
                    (w\<lparr>db := (db w)(model := remove1 d (db w model))\<rparr>))))"
  by (simp add: await_def Model_findByIdAndDelete_def split: option.split)

lemma await_doc_populate:
  "await (doc_populate model d) f w =
     (case populate_fault w of
        Some e \<Rightarrow> (Inl e, emit (DbPopulate model) w)
      | None \<Rightarrow> f d (emit (DbPopulate model) w))"
  by (simp add: await_def doc_populate_def split: option.split)

lemma await_try_catch:
  "await (try_catch m h) f w =
     (case m w of
        (Inl e, w') \<Rightarrow> (case h e w' of (Inl e', w'') \<Rightarrow> (Inl e', w'') | (Inr x, w'') \<Rightarrow> f x w'')
      | (Inr x, w') \<Rightarrow> f x w')"
  by (simp add: await_def try_catch_def split: prod.split sum.split)

lemmas run_simps = run_ret run_throw run_res_status_json run_res_json run_try_catch
  await_ret await_throw await_logger_info await_logger_error await_res_json await_redis_get
  await_redis_setex await_redis_del await_JSON_parse_io await_Model_find await_Model_findById
  await_Model_new await_doc_save await_Model_findByIdAndDelete await_doc_populate
  await_try_catch emit_def


lemma write_summary_rejected:
  "400 \<le> c \<Longrightarrow>
   write_summary keys committed w (snd (try_catch (res_status_json c v) h w))"
  by (simp add: run_simps write_summary_def write_order_def)



section \<open>The write handlers, one by one\<close>

lemma transfers_post_summary:
  "write_summary [''transfers:*''] (save_fault w = None) w (snd (transfers_post req w))"
  unfolding transfers_post_def Let_def
  apply (split if_split, intro conjI impI)
   apply (rule write_summary_rejected, simp)
  apply (split if_split, intro conjI impI)
   apply (rule write_summary_rejected, simp)
  apply (split if_split, intro conjI impI)
   apply (rule write_summary_rejected, simp)
  apply (simp add: run_simps split: option.split)
  apply (simp add: write_summary_def write_order_def)
  done

lemma transfers_patch_summary:
  "write_summary [''transfer:'' @ req_params_id req, ''transfers:*''] (save_fault w = None) w (snd (transfers_patch req w))"
  unfolding transfers_patch_def Let_def
  apply (split if_split, intro conjI impI)
   apply (rule write_summary_rejected, simp)
  apply (split if_split, intro conjI impI)
   apply (rule write_summary_rejected, simp)
  apply (split if_split, intro conjI impI)
   apply (rule write_summary_rejected, simp)
  apply (simp add: run_simps split: option.split)
  apply (simp add: write_summary_def write_order_def)
  done

lemma transfers_delete_summary:
  "write_summary [''transfer:'' @ req_params_id req, ''transfers:*''] (remove_fault w = None) w (snd (transfers_delete req w))"
  unfolding transfers_delete_def Let_def
  apply (simp add: run_simps split: option.split)
  apply (simp add: write_summary_def write_order_def)
  done

lemma awards_post_summary:
  "write_summary [''awards:*''] (save_fault w = None) w (snd (awards_post req w))"
  unfolding awards_post_def Let_def
  apply (split if_split, intro conjI impI)
   apply (rule write_summary_rejected, simp)
  apply (simp add: run_simps split: option.split)
  apply (simp add: write_summary_def write_order_def)
  done

lemma awards_patch_summary:
  "write_summary [''award:'' @ req_params_id req, ''awards:*''] (save_fault w = None) w (snd (awards_patch req w))"
  unfolding awards_patch_def Let_def
  apply (split if_split, intro conjI impI)
   apply (rule write_summary_rejected, simp)
  apply (simp add: run_simps split: option.split)
  apply (simp add: write_summary_def write_order_def)
  done

lemma awards_delete_summary:
  "write_summary [''award:'' @ req_params_id req, ''awards:*''] (remove_fault w = None) w (snd (awards_delete req w))"
  unfolding awards_delete_def Let_def
  apply (simp add: run_simps split: option.split)
  apply (simp add: write_summary_def write_order_def)
  done

lemma playerStats_post_summary:
  "write_summary [''playerStats:*''] (save_fault w = None) w (snd (playerStats_post req w))"
  unfolding playerStats_post_def Let_def
  apply (split if_split, intro conjI impI)
   apply (rule write_summary_rejected, simp)
  apply (simp add: run_simps split: option.split)
  apply (simp add: write_summary_def write_order_def)
  done

lemma playerStats_patch_summary:
  "write_summary [''playerStat:'' @ req_params_id req, ''playerStats:*''] (save_fault w = None) w (snd (playerStats_patch req w))"
  unfolding playerStats_patch_def Let_def
  apply (split if_split, intro conjI impI)
   apply (rule write_summary_rejected, simp)
  apply (simp add: run_simps split: option.split)
  apply (simp add: write_summary_def write_order_def)
  done

lemma playerStats_delete_summary:
  "write_summary [''playerStat:'' @ req_params_id req, ''playerStats:*''] (remove_fault w = None) w (snd (playerStats_delete req w))"
  unfolding playerStats_delete_def Let_def
  apply (simp add: run_simps split: option.split)
  apply (simp add: write_summary_def write_order_def)
  done

lemma news_post_summary:
  "write_summary [''news:*''] (save_fault w = None) w (snd (news_post req w))"
  unfolding news_post_def Let_def
  apply (split if_split, intro conjI impI)
   apply (rule write_summary_rejected, simp)
  apply (split if_split, intro conjI impI)
   apply (rule write_summary_rejected, simp)
  apply (simp add: run_simps split: option.split)
  apply (simp add: write_summary_def write_order_def)
  done

lemma news_patch_summary:
  "write_summary [''news:'' @ req_params_id req, ''news:*''] (save_fault w = None) w (snd (news_patch req w))"
  unfolding news_patch_def Let_def
  apply (split if_split, intro conjI impI)
   apply (rule write_summary_rejected, simp)
  apply (split if_split, intro conjI impI)
   apply (rule write_summary_rejected, simp)
  apply (simp add: run_simps split: option.split)
  apply (simp add: write_summary_def write_order_def)
  done

lemma news_delete_summary:
  "write_summary [''news:'' @ req_params_id req, ''news:*''] (remove_fault w = None) w (snd (news_delete req w))"
  unfolding news_delete_def Let_def
  apply (simp add: run_simps split: option.split)
  apply (simp add: write_summary_def write_order_def)
  done











section \<open>Claims about the write path\<close>

lemma summary_in_order:
  "write_summary keys c w w' \<Longrightarrow>
   invalidation_in_order c (drop (length (events w)) (events w'))"
  by (auto simp: write_summary_def invalidation_in_order_def)



lemma summary_frame:
  "write_summary keys c w w' \<Longrightarrow> k \<notin> set keys \<Longrightarrow> cache w' k = cache w k"
  by (auto simp: write_summary_def)

lemma collection_key_not_pattern: "collection_key e q \<noteq> collection_pattern e"
  by (cases e) simp_all

lemma create_keeps_collection_entries:
  assumes "invalidating e"
  shows "cache (snd (create_handler e req w)) (collection_key e q) = cache w (collection_key e q)"
proof (cases e)
  case News
  then show ?thesis using summary_frame [OF news_post_summary, of "collection_key e q" req w] by simp
next
  case Transfer
  then show ?thesis using summary_frame [OF transfers_post_summary, of "collection_key e q" req w] by simp
next
  case Award
  then show ?thesis using summary_frame [OF awards_post_summary, of "collection_key e q" req w] by simp
next
  case PlayerStat
  then show ?thesis
    using summary_frame [OF playerStats_post_summary, of "collection_key e q" req w] by simp
qed (use assms in simp_all)


lemma not_list_all_allowed:
  "u \<in> set (map fst b) \<Longrightarrow> u \<notin> set allowed \<Longrightarrow> \<not> list_all (\<lambda>update. update \<in> set allowed) (map fst b)"
  by (auto simp: list_all_iff)

text \<open>
  Claim C10. An update (\<^verbatim>\<open>PATCH /:id\<close>) whose body names a field outside the route's
  allow-list is answered with status 400 before anything else happens: the handler's
  whole effect is the response. It reads no document, writes none, sends no command
  to Redis and logs nothing, so the cache and the store are as before. This holds for
  the update handler of every entity type.
\<close>

theorem update_outside_allow_list_rejected:
  assumes "u \<in> set (map fst (req_body req))" and "u \<notin> set (allowedUpdates e)"
  shows "update_handler e req w = rejected (invalid_updates_message e) w"
proof (cases e)
  case Team
  with not_list_all_allowed [OF assms] show ?thesis
    by (simp add: teams_patch_def Let_def run_try_catch run_res_status_json rejected_def)
next
  case Player
  with not_list_all_allowed [OF assms] show ?thesis
    by (simp add: players_patch_def Let_def run_try_catch run_res_status_json rejected_def)
next
  case Fixture
  with not_list_all_allowed [OF assms] show ?thesis
    by (simp add: fixtures_patch_def Let_def run_try_catch run_res_status_json rejected_def)
next
  case Standing
  with not_list_all_allowed [OF assms] show ?thesis
    by (simp add: standings_patch_def Let_def run_try_catch run_res_status_json rejected_def)
next
  case News
  with not_list_all_allowed [OF assms] show ?thesis
    by (simp add: news_patch_def Let_def run_try_catch run_res_status_json rejected_def)
next
  case Transfer
  with not_list_all_allowed [OF assms] show ?thesis
    by (simp add: transfers_patch_def Let_def run_try_catch run_res_status_json rejected_def)
next
  case Award
  with not_list_all_allowed [OF assms] show ?thesis
    by (simp add: awards_patch_def Let_def run_try_catch run_res_status_json rejected_def)
next
  case PlayerStat
  with not_list_all_allowed [OF assms] show ?thesis
    by (simp add: playerStats_patch_def Let_def run_try_catch run_res_status_json rejected_def)
qed

text \<open>
  An instance: a transfer update that carries the field \<^verbatim>\<open>_id\<close> beside an allowed one.
\<close>

theorem update_outside_allow_list_rejected_witness:
  "transfers_patch \<lparr>req_params_id = ''1'', req_query = [], req_body = [(''fee'', JNum 5), (''_id'', JStr ''2'')]\<rparr> empty_world
     = rejected ''Invalid updates!'' empty_world"
  using update_outside_allow_list_rejected [of "''_id''"
      "\<lparr>req_params_id = ''1'', req_query = [], req_body = [(''fee'', JNum 5), (''_id'', JStr ''2'')]\<rparr>"
      Transfer empty_world]
  by simp


text \<open>
  Claim C7. In every run of a create, update or delete handler that invalidates
  (transfers, awards, player statistics, news), the trace is ordered: no \<^verbatim>\<open>DEL\<close> is
  sent before the mutation of the store was issued, a \<^verbatim>\<open>DEL\<close> is sent only when that
  mutation went through (the save or the removal did not fail), a success response is
  written only after a \<^verbatim>\<open>DEL\<close> was sent, and nothing follows the response. So the
  invalidation lies strictly between the committed mutation and the response.
\<close>

theorem invalidation_after_commit_before_response:
  assumes "invalidating e"
  shows "invalidation_in_order (save_fault w = None) (trace_of (create_handler e) req w)
       \<and> invalidation_in_order (save_fault w = None) (trace_of (update_handler e) req w)
       \<and> invalidation_in_order (remove_fault w = None) (trace_of (delete_handler e) req w)"
proof (cases e)
  case News
  then show ?thesis
    by (simp add: trace_of_def summary_in_order [OF news_post_summary] summary_in_order [OF news_patch_summary]
        summary_in_order [OF news_delete_summary])
next
  case Transfer
  then show ?thesis
    by (simp add: trace_of_def summary_in_order [OF transfers_post_summary]
        summary_in_order [OF transfers_patch_summary] summary_in_order [OF transfers_delete_summary])
next
  case Award
  then show ?thesis
    by (simp add: trace_of_def summary_in_order [OF awards_post_summary]
        summary_in_order [OF awards_patch_summary] summary_in_order [OF awards_delete_summary])
next
  case PlayerStat
  then show ?thesis
    by (simp add: trace_of_def summary_in_order [OF playerStats_post_summary]
        summary_in_order [OF playerStats_patch_summary]
        summary_in_order [OF playerStats_delete_summary])
qed (use assms in simp_all)

text \<open>
  An instance: updating the fee of the stored sample transfer. The run reads the
  document, saves it, deletes both keys, populates and only then responds.
\<close>

theorem invalidation_after_commit_before_response_witness:
  "invalidation_in_order (save_fault one_transfer = None)
     (trace_of transfers_patch update_transfer one_transfer)
   \<and> trace_of transfers_patch update_transfer one_transfer =
       [DbFindById ''Transfer'' ''1'',
        DbSave ''Transfer'' ((''_id'', JStr ''1'') # set_prop ''fee'' (JNum 25) sample_transfer),
        RedisDel ''transfer:1'', RedisDel ''transfers:*'', DbPopulate ''Transfer'',
        Respond 200 (JObj ((''_id'', JStr ''1'') # set_prop ''fee'' (JNum 25) sample_transfer))]"
proof -
  have a: "invalidating Transfer" by simp
  have b: "trace_of transfers_patch update_transfer one_transfer =
       [DbFindById ''Transfer'' ''1'',
        DbSave ''Transfer'' ((''_id'', JStr ''1'') # set_prop ''fee'' (JNum 25) sample_transfer),
        RedisDel ''transfer:1'', RedisDel ''transfers:*'', DbPopulate ''Transfer'',
        Respond 200 (JObj ((''_id'', JStr ''1'') # set_prop ''fee'' (JNum 25) sample_transfer))]"
    by code_simp
  from invalidation_after_commit_before_response [OF a, of one_transfer update_transfer] b
  show ?thesis by simp
qed






text \<open>
  Claim C1 evaluated on the code. The list of transfers is fetched while the collection
  is empty, which caches \<^verbatim>\<open>[]\<close> under \<^verbatim>\<open>transfers:{}\<close>. A transfer is then
  created: the handler answers 201 and sends \<^verbatim>\<open>DEL transfers:*\<close>, which names no
  stored key. The cached entry is still live, and the next fetch of the list answers
  the cached empty list without a query to the store, which now holds one transfer.
  (By \<open>create_keeps_collection_entries\<close> no create handler ever removes a cached
  collection entry.)
\<close>

theorem stale_collection_served_after_create:
  "live cached_empty_list ''transfers:{}'' = Some ''[]''
   \<and> status_of (fst (transfers_post create_transfer cached_empty_list)) = Some 201
   \<and> invalidated_keys (trace_of transfers_post create_transfer cached_empty_list) = [''transfers:*'']
   \<and> length (db after_create ''Transfer'') = 1
   \<and> live after_create ''transfers:{}'' = Some ''[]''
   \<and> fst (transfers_get_all list_transfers after_create) = Inr \<lparr>status = 200, body = JArr []\<rparr>
   \<and> trace_of transfers_get_all list_transfers after_create
       = [RedisGet ''transfers:{}'', Respond 200 (JArr [])]"
  by code_simp

theorem stale_collection_served_after_create_witness:
  "length (db after_create ''Transfer'') = 1
   \<and> fst (transfers_get_all list_transfers after_create) = Inr \<lparr>status = 200, body = JArr []\<rparr>"
  using stale_collection_served_after_create by blast

section \<open>The reader undoes the writer\<close>

text \<open>
  What \<^verbatim>\<open>JSON.stringify\<close> writes, \<^verbatim>\<open>JSON.parse\<close> reads back: a cached payload is
  parsed to the value that was cached.
\<close>

lemma of_char_digit_char: "d < 10 \<Longrightarrow> (of_char (digit_char d) :: nat) = 48 + d"
  by (simp add: digit_char_def)

lemma digit_val_digit_char: "d < 10 \<Longrightarrow> digit_val (digit_char d) = Some d"
  by (simp add: digit_val_def of_char_digit_char Let_def)

lemma of_char_hex_digit:
  "d < 16 \<Longrightarrow> (of_char (hex_digit d) :: nat) = (if d < 10 then 48 + d else 87 + d)"
  by (simp add: hex_digit_def)

lemma hex_val_hex_digit: "d < 16 \<Longrightarrow> hex_val (hex_digit d) = Some d"
  by (simp add: hex_val_def of_char_hex_digit Let_def)

lemma show_nat_not_Nil: "show_nat n \<noteq> []"
  by (subst show_nat.simps) simp

lemma parse_digits_show_nat:
  "parse_digits acc (show_nat n @ r) = parse_digits (acc * 10 ^ length (show_nat n) + n) r"
proof (induction n arbitrary: acc r rule: show_nat.induct)
  case (1 n)
  show ?case
  proof (cases "n < 10")
    case True
    then show ?thesis
      by (simp add: show_nat.simps [of n] digit_val_digit_char mult.commute)
  next
    case False
    then have s: "show_nat n = show_nat (n div 10) @ [digit_char (n mod 10)]"
      by (subst show_nat.simps) simp
    have "parse_digits acc (show_nat n @ r)
            = parse_digits (acc * 10 ^ length (show_nat (n div 10)) + n div 10)
                (digit_char (n mod 10) # r)"
      using "1.IH" [OF False, of acc "digit_char (n mod 10) # r"] by (simp add: s)
    also have "\<dots> = parse_digits (10 * (acc * 10 ^ length (show_nat (n div 10)) + n div 10)
                          + n mod 10) r"
      by (simp add: digit_val_digit_char)
    also have "10 * (acc * 10 ^ length (show_nat (n div 10)) + n div 10) + n mod 10
                 = acc * 10 ^ length (show_nat n) + n"
      by (simp add: s algebra_simps)
    finally show ?thesis .
  qed
qed

lemma parse_digits_stop: "no_digit_ahead r \<Longrightarrow> parse_digits acc r = (acc, r)"
  by (cases r) (simp_all add: no_digit_ahead_def)

lemma show_nat_head:
  "0 < n \<Longrightarrow> \<exists>d cs. show_nat n = digit_char d # cs \<and> 0 < d \<and> d < 10"
proof (induction n rule: show_nat.induct)
  case (1 n)
  show ?case
  proof (cases "n < 10")
    case True
    with "1.prems" show ?thesis by (auto simp add: show_nat.simps [of n])
  next
    case False
    then have "0 < n div 10" by simp
    from "1.IH" [OF False this] obtain d cs
      where "show_nat (n div 10) = digit_char d # cs" "0 < d" "d < 10" by blast
    with False show ?thesis by (auto simp add: show_nat.simps [of n])
  qed
qed

lemma parse_nat_show_nat:
  assumes "no_digit_ahead r"
  shows "parse_nat (show_nat n @ r) = Some (n, r)"
proof (cases "n = 0")
  case True
  then show ?thesis
    by (simp add: show_nat.simps [of 0] parse_nat_def digit_val_digit_char)
next
  case False
  then obtain d cs where h: "show_nat n = digit_char d # cs" "0 < d" "d < 10"
    using show_nat_head [of n] by auto
  have "parse_digits 0 (show_nat n @ r) = (n, r)"
    by (simp add: parse_digits_show_nat parse_digits_stop assms)
  moreover have "parse_digits 0 (show_nat n @ r) = parse_digits d (cs @ r)"
    using h by (simp add: digit_val_digit_char)
  ultimately show ?thesis
    using h by (simp add: parse_nat_def digit_val_digit_char)
qed


lemma digit_char_not_minus: "d < 10 \<Longrightarrow> digit_char d \<noteq> CHR ''-''"
  using of_char_digit_char [of d] by (auto simp del: of_char_digit_char)

lemma show_nat_Cons: "\<exists>d cs. show_nat n = digit_char d # cs \<and> d < 10"
proof (cases "n = 0")
  case True
  then show ?thesis by (auto simp add: show_nat.simps [of 0])
next
  case False
  then show ?thesis using show_nat_head [of n] by auto
qed

lemma parse_number_show_int:
  assumes "number_ends r"
  shows "parse_number (show_int i @ r) = Some (JNum i, r)"
proof (cases "i < 0")
  case True
  then show ?thesis
    using assms
    by (simp add: show_int_def parse_number_def parse_nat_show_nat number_ends_def)
next
  case False
  obtain d cs where h: "show_nat (nat i) = digit_char d # cs" "d < 10"
    using show_nat_Cons by blast
  have "parse_nat (digit_char d # cs @ r) = Some (nat i, r)"
    using parse_nat_show_nat [of r "nat i"] assms h by (simp add: number_ends_def)
  with False h assms show ?thesis
    by (simp add: show_int_def parse_number_def number_ends_def digit_char_not_minus)
qed


lemma hex_val_zero: "hex_val CHR ''0'' = Some 0"
  by (simp add: hex_val_def)

lemma parse_chars_escape:
  "parse_chars (escape_char c @ rest) = cons_char c (parse_chars rest)"
proof (cases "(of_char c :: nat) < 32")
  case True
  then have d: "(of_char c :: nat) div 16 < 16" "(of_char c :: nat) mod 16 < 16" by simp_all
  have n: "(of_char c :: nat) div 16 * 16 + (of_char c :: nat) mod 16 = of_char c" by simp
  from True have c: "c \<noteq> dquote" "c \<noteq> backslash"
    by (auto simp: dquote_def backslash_def)
  show ?thesis
    using True c
    by (simp add: escape_char_def unescape_char_def hex4_def hex_val_zero
        hex_val_hex_digit [OF d(1)] hex_val_hex_digit [OF d(2)] n dquote_def backslash_def)
next
  case False
  then show ?thesis
    by (auto simp: escape_char_def unescape_char_def dquote_def backslash_def)
qed

lemma parse_chars_escaped:
  "parse_chars (concat (map escape_char s) @ dquote # r) = Some (s, r)"
  by (induction s) (simp_all add: parse_chars_escape cons_char_def)

lemma parse_chars_quote: "\<exists>cs. quote s @ r = dquote # cs \<and> parse_chars cs = Some (s, r)"
  by (simp add: quote_def parse_chars_escaped)


lemma digit_range_start: "48 \<le> (of_char c :: nat) \<Longrightarrow> (of_char c :: nat) \<le> 57 \<Longrightarrow> value_start c"
  by (auto simp: value_start_def is_ws_def)

lemma digit_char_start: "d < 10 \<Longrightarrow> value_start (digit_char d)"
  by (rule digit_range_start) (simp_all add: of_char_digit_char)

lemma show_int_start: "\<exists>c cs. show_int i = c # cs \<and> value_start c"
proof (cases "i < 0")
  case True
  then show ?thesis by (simp add: show_int_def value_start_def is_ws_def)
next
  case False
  obtain d cs where "show_nat (nat i) = digit_char d # cs" "d < 10"
    using show_nat_Cons by blast
  with False show ?thesis by (simp add: show_int_def digit_char_start)
qed

lemma stringify_start: "\<exists>c cs. JSON_stringify v = c # cs \<and> value_start c"
proof (cases v)
  case (JNum i)
  then show ?thesis using show_int_start [of i] by simp
qed (simp_all add: value_start_def is_ws_def quote_def dquote_def)

lemma stringify_elems_start:
  "vs \<noteq> [] \<Longrightarrow> \<exists>c cs. stringify_elems vs = c # cs \<and> value_start c"
proof (cases vs)
  case (Cons v ws)
  obtain c cs where "JSON_stringify v = c # cs" "value_start c"
    using stringify_start by blast
  with Cons show ?thesis by (cases ws) auto
qed simp

lemma skip_ws_start: "value_start c \<Longrightarrow> skip_ws (c # cs) = c # cs"
  by (simp add: value_start_def)


lemma after_value_number_ends: "after_value r \<Longrightarrow> number_ends r"
  by (cases r)
     (auto simp: after_value_def number_ends_def no_digit_ahead_def fraction_follows_def
        digit_val_def)

lemma after_value_simps [simp]:
  "after_value []" "after_value (CHR '','' # r)" "after_value (CHR '']'' # r)"
  "after_value (CHR ''}'' # r)"
  by (simp_all add: after_value_def)

lemma parse_value_number:
  assumes "after_value r"
  shows "parse_value (Suc n) (show_int i @ r) = Some (JNum i, r)"
proof -
  obtain c cs where h: "show_int i = c # cs" "value_start c"
    using show_int_start by blast
  have d: "c = CHR ''-'' \<or> (48 \<le> (of_char c :: nat) \<and> (of_char c :: nat) \<le> 57)"
  proof (cases "i < 0")
    case True
    with h show ?thesis by (simp add: show_int_def)
  next
    case False
    obtain d ds where "show_nat (nat i) = digit_char d # ds" "d < 10"
      using show_nat_Cons by blast
    with False h show ?thesis by (auto simp: show_int_def of_char_digit_char)
  qed
  then have ne: "c \<noteq> CHR ''n''" "c \<noteq> CHR ''t''" "c \<noteq> CHR ''f''" "c \<noteq> dquote"
    "c \<noteq> CHR ''[''" "c \<noteq> CHR ''{''"
    by (auto simp: dquote_def)
  have "parse_number (c # cs @ r) = Some (JNum i, r)"
    using parse_number_show_int [OF after_value_number_ends [OF assms], of i] h by simp
  with h ne show ?thesis
    by (simp add: value_start_def)
qed


lemma expect_literal: "expect lit (lit @ r) = Some r"
  by (simp add: expect_def)

lemma dquote_facts:
  "\<not> is_ws dquote" "dquote \<noteq> CHR ''n''" "dquote \<noteq> CHR ''t''" "dquote \<noteq> CHR ''f''"
  by (simp_all add: dquote_def is_ws_def)

lemma colon_not_ws: "\<not> is_ws CHR '':''"
  by (simp add: is_ws_def)

lemma parse_value_string: "parse_value (Suc n) (quote s @ r) = Some (JStr s, r)"
  by (simp add: quote_def dquote_facts parse_chars_escaped)

lemma parse_members_key:
  "parse_members (Suc n) (quote k @ CHR '':'' # rest) =
     (case parse_value n rest of
        None \<Rightarrow> None
      | Some (v, rest') \<Rightarrow>
          (case skip_ws rest' of
             [] \<Rightarrow> None
           | d # ds \<Rightarrow>
               if d = CHR ''}'' then Some ([(k, v)], ds)
               else if d = CHR '','' then
                 (case parse_members n ds of
                    None \<Rightarrow> None
                  | Some (ms, rest'') \<Rightarrow> Some ((k, v) # ms, rest''))
               else None))"
  by (simp add: quote_def dquote_facts parse_chars_escaped colon_not_ws)

lemma parse_value_roundtrip:
  fixes v :: json and vs :: "json list" and ms :: "(string \<times> json) list"
  shows "\<And>n r. weight v \<le> n \<Longrightarrow> after_value r \<Longrightarrow>
           parse_value n (JSON_stringify v @ r) = Some (v, r)"
    and "\<And>n r. vs \<noteq> [] \<Longrightarrow> weight_elems vs \<le> n \<Longrightarrow>
           parse_elems n (stringify_elems vs @ CHR '']'' # r) = Some (vs, r)"
    and "\<And>n r. ms \<noteq> [] \<Longrightarrow> weight_members ms \<le> n \<Longrightarrow>
           parse_members n (stringify_members ms @ CHR ''}'' # r) = Some (ms, r)"
proof (induction v and vs and ms rule: JSON_stringify_stringify_elems_stringify_members.induct)
  case 1
  then obtain m where "n = Suc m" by (cases n) auto
  then show ?case using expect_literal [of "''ull''" r] by (simp add: is_ws_def)
next
  case (2 b)
  then obtain m where "n = Suc m" by (cases n) auto
  then show ?case
    using expect_literal [of "''rue''" r] expect_literal [of "''alse''" r]
    by (simp add: is_ws_def)
next
  case (3 i)
  then obtain m where "n = Suc m" by (cases n) auto
  with parse_value_number [OF "3.prems"(2), of m i] show ?case by (simp del: parse_value.simps)
next
  case (4 s)
  then obtain m where "n = Suc m" by (cases n) auto
  then show ?case
    by (simp add: parse_value_string del: parse_value.simps)
next
  case (5 vs)
  then obtain m where n: "n = Suc m" and m: "weight_elems vs \<le> m" by (cases n) auto
  show ?case
  proof (cases "vs = []")
    case True
    with n show ?thesis by (simp add: is_ws_def dquote_def)
  next
    case False
    obtain c cs where h: "stringify_elems vs = c # cs" "value_start c"
      using stringify_elems_start [OF False] by blast
    from "5.IH" [OF False m, of r] h n show ?thesis
      by (simp add: is_ws_def dquote_def value_start_def)
  qed
next
  case (6 ms)
  then obtain m where n: "n = Suc m" and m: "weight_members ms \<le> m" by (cases n) auto
  show ?case
  proof (cases ms)
    case Nil
    with n show ?thesis by (simp add: is_ws_def dquote_def)
  next
    case (Cons kv ms')
    then have ne: "ms \<noteq> []" by simp
    obtain cs where h: "stringify_members ms = dquote # cs"
      using Cons by (cases kv; cases ms') (auto simp: quote_def)
    from "6.IH" [OF ne m, of r] h n show ?thesis
      by (simp add: is_ws_def dquote_def)
  qed
next
  case 7
  then show ?case by simp
next
  case (8 v)
  then obtain m where n: "n = Suc m" and m: "weight v \<le> m" by (cases n) auto
  from "8.IH" [OF m, of "CHR '']'' # r"] n show ?case
    by (simp add: is_ws_def)
next
  case (9 v w vs)
  then obtain m where n: "n = Suc m" and m: "weight v \<le> m" "weight_elems (w # vs) \<le> m"
    by (cases n) auto
  from "9.IH"(1) [OF m(1), of "CHR '','' # stringify_elems (w # vs) @ CHR '']'' # r"]
    "9.IH"(2) [OF _ m(2), of r] n
  show ?case by (simp add: is_ws_def)
next
  case 10
  then show ?case by simp
next
  case (11 k v)
  then obtain m where n: "n = Suc m" and m: "weight v \<le> m" by (cases n) auto
  from "11.IH" [OF m, of "CHR ''}'' # r"] n show ?case
    by (simp add: parse_members_key is_ws_def del: parse_members.simps)
next
  case (12 k v m' ms)
  then obtain m where n: "n = Suc m"
    and m: "weight v \<le> m" "weight_members (m' # ms) \<le> m"
    by (cases n) auto
  from "12.IH"(1) [OF m(1), of "CHR '','' # stringify_members (m' # ms) @ CHR ''}'' # r"]
    "12.IH"(2) [OF _ m(2), of r] n
  show ?case
    by (simp add: parse_members_key is_ws_def del: parse_members.simps)
qed


lemma show_nat_length: "0 < length (show_nat n)"
  using show_nat_not_Nil by simp

lemma show_int_length: "Suc 0 \<le> length (show_int i)"
  using show_nat_not_Nil [of "nat i"] show_nat_not_Nil [of "nat (- i)"]
  by (cases "show_nat (nat i)"; cases "show_nat (nat (- i))") (simp_all add: show_int_def)

lemma weight_bound:
  fixes v :: json and vs :: "json list" and ms :: "(string \<times> json) list"
  shows "weight v \<le> 2 * length (JSON_stringify v)"
    and "weight_elems vs \<le> 2 * length (stringify_elems vs) + 1"
    and "weight_members ms \<le> 2 * length (stringify_members ms) + 1"
proof (induction v and vs and ms rule: JSON_stringify_stringify_elems_stringify_members.induct)
  case (3 n)
  then show ?case using show_int_length [of n] by simp
next
  case (4 s)
  then show ?case by (simp add: quote_def)
qed (simp_all add: quote_def)

theorem JSON_parse_stringify: "JSON_parse (JSON_stringify v) = Some v"
proof -
  have "weight v \<le> 2 * length (JSON_stringify v) + 1"
    using weight_bound(1) [of v] by simp
  from parse_value_roundtrip(1) [OF this, of "[]"] show ?thesis
    by (simp add: JSON_parse_def)
qed

lemma JSON_stringify_inject: "JSON_stringify a = JSON_stringify b \<Longrightarrow> a = b"
  by (metis JSON_parse_stringify option.inject)

section \<open>The read handlers, one by one\<close>

text \<open>
  Properties that every step of a read handler keeps are proved once for each command
  and carried through the handler by the rules for sequencing.
\<close>

lemma JSON_stringify_not_Nil [simp]: "JSON_stringify v \<noteq> []"
  using stringify_start [of v] by auto

lemma truthy_stringified [simp]: "truthy_string (Some (JSON_stringify v))"
  by simp

lemma preserves_ret: "preserves I (ret x)"
  by (simp add: preserves_def ret_def)

lemma preserves_throw: "preserves I (throw e)"
  by (simp add: preserves_def throw_def)

lemma preserves_await:
  "preserves I m \<Longrightarrow> (\<And>x. preserves I (f x)) \<Longrightarrow> preserves I (await m f)"
  by (auto simp: preserves_def await_def split: prod.split sum.split)

lemma preserves_try_catch:
  "preserves I m \<Longrightarrow> (\<And>e. preserves I (h e)) \<Longrightarrow> preserves I (try_catch m h)"
  by (auto simp: preserves_def try_catch_def split: prod.split sum.split)

lemma preserves_if: "preserves I a \<Longrightarrow> preserves I b \<Longrightarrow> preserves I (if c then a else b)"
  by simp

lemma preserves_case_option:
  "preserves I a \<Longrightarrow> (\<And>x. preserves I (b x)) \<Longrightarrow>
   preserves I (case v of None \<Rightarrow> a | Some x \<Rightarrow> b x)"
  by (simp split: option.split)

lemma preservesD: "preserves I m \<Longrightarrow> I w \<Longrightarrow> I (snd (m w))"
  by (simp add: preserves_def)

lemma setex_ttls_append: "setex_ttls (xs @ ys) = setex_ttls xs @ setex_ttls ys"
  by (induction xs rule: setex_ttls.induct) simp_all

lemma read_logger_info: "preserves (read_summary w0) (logger_info m)"
  by (simp add: preserves_def logger_info_def read_summary_def)

lemma read_logger_error: "preserves (read_summary w0) (logger_error m e)"
  by (simp add: preserves_def logger_error_def read_summary_def)

lemma read_emit:
  "read_summary w0 w \<Longrightarrow> setex_ttls [ev] = [] \<Longrightarrow> read_summary w0 (emit ev w)"
  by (simp add: read_summary_def emit_def setex_ttls_append)

lemma read_redis_get: "preserves (read_summary w0) (redis_get k)"
  by (simp add: preserves_def redis_get_def read_emit split: option.split)

lemma read_res_status_json: "preserves (read_summary w0) (res_status_json c v)"
  by (simp add: preserves_def res_status_json_def read_emit)

lemma read_res_json: "preserves (read_summary w0) (res_json v)"
  by (simp add: res_json_def read_res_status_json)

lemma read_JSON_parse_io: "preserves (read_summary w0) (JSON_parse_io s)"
  by (simp add: JSON_parse_io_def preserves_ret preserves_throw split: option.split)

lemma read_Model_find: "preserves (read_summary w0) (Model_find m f s)"
  by (simp add: preserves_def Model_find_def read_emit split: option.split)

lemma read_Model_findById: "preserves (read_summary w0) (Model_findById m i)"
  by (simp add: preserves_def Model_findById_def read_emit split: option.split)

lemma read_redis_setex: "preserves (read_summary w0) (redis_setex k 3600 v)"
  by (auto simp: preserves_def redis_setex_def read_summary_def emit_def setex_ttls_append
      split: option.split)

lemmas read_rules = preserves_ret preserves_throw preserves_await preserves_try_catch
  preserves_if preserves_case_option read_logger_info read_logger_error read_redis_get
  read_res_status_json read_res_json read_JSON_parse_io read_Model_find read_Model_findById
  read_redis_setex

lemma read_summary_refl: "read_summary w w"
  by (simp add: read_summary_def)

lemma live_logs: "live (w\<lparr>logs := l\<rparr>) k = live w k"
  by (simp add: live_def split: option.split)

lemma live_events: "live (w\<lparr>events := l\<rparr>) k = live w k"
  by (simp add: live_def split: option.split)

lemma live_redis_get_fault: "live (w\<lparr>redis_get_fault := f\<rparr>) k = live w k"
  by (simp add: live_def split: option.split)

lemma live_cache_removed: "live (w\<lparr>cache := c(k := None)\<rparr>) k = None"
  by (simp add: live_def)

lemma live_cache_stored:
  "clock w < t \<Longrightarrow> live (w\<lparr>cache := c(k \<mapsto> \<lparr>payload = v, expires_at = t\<rparr>)\<rparr>) k = Some v"
  by (simp add: live_def)

lemmas live_simps = live_logs live_events live_redis_get_fault live_cache_removed
  live_cache_stored

text \<open>
  For each cached route: what the run leaves behind; a miss followed by a failing
  \<^verbatim>\<open>SETEX\<close>; a miss followed by the same request again; a failing lookup (where the
  lookup has a \<^verbatim>\<open>try\<close> block of its own); and a miss for a document the store does
  not have.
\<close>

lemma players_get_all_summary: "read_summary w (snd (players_get_all req w))"
  by (rule preservesD [OF _ read_summary_refl], unfold players_get_all_def Let_def)
    (intro read_rules)

lemma players_get_all_set_failure:
  assumes "redis_get_fault w = None"
    and "\<not> truthy_string (live w (''players:'' @ JSON_stringify (JObj (req_query req))))"
    and "find_fault w = None" and "redis_setex_fault w = Some e"
  shows "fst (players_get_all req w)
           = Inr \<lparr>status = 500, body = message ''Error fetching players''\<rparr>
       \<and> loader_calls (trace_of players_get_all req w) = 1
       \<and> cache (snd (players_get_all req w)) = cache w
       \<and> (\<exists>m. last (logs (snd (players_get_all req w))) = LogError m e)"
  unfolding players_get_all_def Let_def using assms
  by (simp add: run_simps live_simps trace_of_def JSON_parse_stringify
        cong: prod.case_cong_weak split del: if_split del: JSON_stringify.simps)


lemma transfers_get_all_summary: "read_summary w (snd (transfers_get_all req w))"
  by (rule preservesD [OF _ read_summary_refl], unfold transfers_get_all_def Let_def)
    (intro read_rules)

lemma transfers_get_all_set_failure:
  assumes "redis_get_fault w = None"
    and "\<not> truthy_string (live w (''transfers:'' @ JSON_stringify (JObj (req_query req))))"
    and "find_fault w = None" and "redis_setex_fault w = Some e"
  shows "fst (transfers_get_all req w)
           = Inr \<lparr>status = 500, body = message ''Error fetching transfers''\<rparr>
       \<and> loader_calls (trace_of transfers_get_all req w) = 1
       \<and> cache (snd (transfers_get_all req w)) = cache w
       \<and> (\<exists>m. last (logs (snd (transfers_get_all req w))) = LogError m e)"
  unfolding transfers_get_all_def Let_def using assms
  by (simp add: run_simps live_simps trace_of_def JSON_parse_stringify
        cong: prod.case_cong_weak split del: if_split del: JSON_stringify.simps)



lemma transfers_get_by_id_summary: "read_summary w (snd (transfers_get_by_id req w))"
  by (rule preservesD [OF _ read_summary_refl], unfold transfers_get_by_id_def Let_def)
    (intro read_rules)

lemma transfers_get_by_id_set_failure:
  assumes "redis_get_fault w = None"
    and "\<not> truthy_string (live w (''transfer:'' @ req_params_id req))"
    and "find_fault w = None" and "redis_setex_fault w = Some e"
    and "find (\<lambda>d. doc_id d = Some (JStr (req_params_id req))) (db w ''Transfer'')
           = Some d"
  shows "fst (transfers_get_by_id req w)
           = Inr \<lparr>status = 500, body = message ''Error fetching transfer''\<rparr>
       \<and> loader_calls (trace_of transfers_get_by_id req w) = 1
       \<and> cache (snd (transfers_get_by_id req w)) = cache w
       \<and> (\<exists>m. last (logs (snd (transfers_get_by_id req w))) = LogError m e)"
  unfolding transfers_get_by_id_def Let_def using assms
  by (simp add: run_simps live_simps trace_of_def JSON_parse_stringify
        cong: prod.case_cong_weak split del: if_split del: JSON_stringify.simps)




lemma awards_get_all_summary: "read_summary w (snd (awards_get_all req w))"
  by (rule preservesD [OF _ read_summary_refl], unfold awards_get_all_def Let_def)
    (intro read_rules)

lemma awards_get_all_set_failure:
  assumes "redis_get_fault w = None"
    and "\<not> truthy_string (live w (''awards:'' @ JSON_stringify (JObj (req_query req))))"
    and "find_fault w = None" and "redis_setex_fault w = Some e"
  shows "fst (awards_get_all req w)
           = Inr \<lparr>status = 500, body = message ''Error fetching awards''\<rparr>
       \<and> loader_calls (trace_of awards_get_all req w) = 1
       \<and> cache (snd (awards_get_all req w)) = cache w
       \<and> (\<exists>m. last (logs (snd (awards_get_all req w))) = LogError m e)"
  unfolding awards_get_all_def Let_def using assms
  by (simp add: run_simps live_simps trace_of_def JSON_parse_stringify
        cong: prod.case_cong_weak split del: if_split del: JSON_stringify.simps)



lemma awards_get_by_id_summary: "read_summary w (snd (awards_get_by_id req w))"
  by (rule preservesD [OF _ read_summary_refl], unfold awards_get_by_id_def Let_def)
    (intro read_rules)

lemma awards_get_by_id_set_failure:
  assumes "redis_get_fault w = None"
    and "\<not> truthy_string (live w (''award:'' @ req_params_id req))"
    and "find_fault w = None" and "redis_setex_fault w = Some e"
    and "find (\<lambda>d. doc_id d = Some (JStr (req_params_id req))) (db w ''Award'')
           = Some d"
  shows "fst (awards_get_by_id req w)
           = Inr \<lparr>status = 500, body = message ''Error fetching award''\<rparr>
       \<and> loader_calls (trace_of awards_get_by_id req w) = 1
       \<and> cache (snd (awards_get_by_id req w)) = cache w
       \<and> (\<exists>m. last (logs (snd (awards_get_by_id req w))) = LogError m e)"
  unfolding awards_get_by_id_def Let_def using assms
  by (simp add: run_simps live_simps trace_of_def JSON_parse_stringify
        cong: prod.case_cong_weak split del: if_split del: JSON_stringify.simps)



lemma playerStats_get_all_summary: "read_summary w (snd (playerStats_get_all req w))"
  by (rule preservesD [OF _ read_summary_refl], unfold playerStats_get_all_def Let_def)
    (intro read_rules)

lemma playerStats_get_all_set_failure:
  assumes "redis_get_fault w = None"
    and "\<not> truthy_string (live w (''playerStats:'' @ JSON_stringify (JObj (req_query req))))"
    and "find_fault w = None" and "redis_setex_fault w = Some e"
  shows "fst (playerStats_get_all req w)
           = Inr \<lparr>status = 500, body = message ''Error fetching player statistics''\<rparr>
       \<and> loader_calls (trace_of playerStats_get_all req w) = 1
       \<and> cache (snd (playerStats_get_all req w)) = cache w
       \<and> (\<exists>m. last (logs (snd (playerStats_get_all req w))) = LogError m e)"
  unfolding playerStats_get_all_def Let_def using assms
  by (simp add: run_simps live_simps trace_of_def JSON_parse_stringify
        cong: prod.case_cong_weak split del: if_split del: JSON_stringify.simps)


lemma playerStats_get_by_id_summary: "read_summary w (snd (playerStats_get_by_id req w))"
  by (rule preservesD [OF _ read_summary_refl], unfold playerStats_get_by_id_def Let_def)
    (intro read_rules)

lemma playerStats_get_by_id_set_failure:
  assumes "redis_get_fault w = None"
    and "\<not> truthy_string (live w (''playerStat:'' @ req_params_id req))"
    and "find_fault w = None" and "redis_setex_fault w = Some e"
    and "find (\<lambda>d. doc_id d = Some (JStr (req_params_id req))) (db w ''PlayerStat'')
           = Some d"
  shows "fst (playerStats_get_by_id req w)
           = Inr \<lparr>status = 500, body = message ''Error fetching player statistic''\<rparr>
       \<and> loader_calls (trace_of playerStats_get_by_id req w) = 1
       \<and> cache (snd (playerStats_get_by_id req w)) = cache w
       \<and> (\<exists>m. last (logs (snd (playerStats_get_by_id req w))) = LogError m e)"
  unfolding playerStats_get_by_id_def Let_def using assms
  by (simp add: run_simps live_simps trace_of_def JSON_parse_stringify
        cong: prod.case_cong_weak split del: if_split del: JSON_stringify.simps)



lemma news_get_all_summary: "read_summary w (snd (news_get_all req w))"
  by (rule preservesD [OF _ read_summary_refl], unfold news_get_all_def Let_def)
    (intro read_rules)

lemma news_get_all_set_failure:
  assumes "redis_get_fault w = None"
    and "\<not> truthy_string (live w (''news:'' @ JSON_stringify (JObj (req_query req))))"
    and "find_fault w = None" and "redis_setex_fault w = Some e"
  shows "fst (news_get_all req w)
           = Inr \<lparr>status = 500, body = message ''Error fetching news''\<rparr>
       \<and> loader_calls (trace_of news_get_all req w) = 1
       \<and> cache (snd (news_get_all req w)) = cache w
       \<and> (\<exists>m. last (logs (snd (news_get_all req w))) = LogError m e)"
  unfolding news_get_all_def Let_def using assms
  by (simp add: run_simps live_simps trace_of_def JSON_parse_stringify
        cong: prod.case_cong_weak split del: if_split del: JSON_stringify.simps)



lemma news_get_by_id_summary: "read_summary w (snd (news_get_by_id req w))"
  by (rule preservesD [OF _ read_summary_refl], unfold news_get_by_id_def Let_def)
    (intro read_rules)

lemma news_get_by_id_set_failure:
  assumes "redis_get_fault w = None"
    and "\<not> truthy_string (live w (''news:'' @ req_params_id req))"
    and "find_fault w = None" and "redis_setex_fault w = Some e"
    and "find (\<lambda>d. doc_id d = Some (JStr (req_params_id req))) (db w ''News'')
           = Some d"
  shows "fst (news_get_by_id req w)
           = Inr \<lparr>status = 500, body = message ''Error fetching news article''\<rparr>
       \<and> loader_calls (trace_of news_get_by_id req w) = 1
       \<and> cache (snd (news_get_by_id req w)) = cache w
       \<and> (\<exists>m. last (logs (snd (news_get_by_id req w))) = LogError m e)"
  unfolding news_get_by_id_def Let_def using assms
  by (simp add: run_simps live_simps trace_of_def JSON_parse_stringify
        cong: prod.case_cong_weak split del: if_split del: JSON_stringify.simps)




section \<open>Claims about the read path\<close>

lemma read_handler_summary: "read_summary w (snd (read_handler r req w))"
  by (cases r)
    (simp_all add: players_get_all_summary transfers_get_all_summary
      transfers_get_by_id_summary awards_get_all_summary awards_get_by_id_summary
      playerStats_get_all_summary playerStats_get_by_id_summary news_get_all_summary
      news_get_by_id_summary)

text \<open>
  Claim C2, as the code has it. The key of a list route is the namespace followed by
  \<^verbatim>\<open>JSON.stringify(req.query)\<close>, and the text of a query object determines the object:
  two queries get the same key exactly when they list the same parameters with the same
  values in the same order.
\<close>

theorem cache_key_follows_parameter_order:
  "(collection_key e A = collection_key e B) = (A = B)"
  by (cases e)
    (auto dest: JSON_stringify_inject [of "JObj A" "JObj B"] simp del: JSON_stringify.simps)

theorem cache_key_follows_parameter_order_witness:
  "collection_key Transfer [(''season'', JStr ''2023/2024'')]
     \<noteq> collection_key Transfer [(''season'', JStr ''2024/2025'')]"
  using cache_key_follows_parameter_order
    [of Transfer "[(''season'', JStr ''2023/2024'')]" "[(''season'', JStr ''2024/2025'')]"]
  by simp

text \<open>
  Claim C2 as stated fails: the same two parameters listed in the other order
  give another key for the list of players.
\<close>

theorem permuted_query_changes_key:
  "mset forward_then_team = mset team_then_forward
   \<and> collection_key Player forward_then_team
       = ''players:{'' @ quote ''position'' @ '':'' @ quote ''Forward'' @ '',''
           @ quote ''team'' @ '':'' @ quote ''t1'' @ ''}''
   \<and> collection_key Player team_then_forward
       = ''players:{'' @ quote ''team'' @ '':'' @ quote ''t1'' @ '',''
           @ quote ''position'' @ '':'' @ quote ''Forward'' @ ''}''
   \<and> collection_key Player forward_then_team \<noteq> collection_key Player team_then_forward"
  by code_simp



text \<open>
  Claim C6, as the code has it. On each of the nine cached routes: when the lookup finds
  no usable entry and the store delivers the data, a failing \<^verbatim>\<open>SETEX\<close> is caught by
  the handler's outer \<^verbatim>\<open>catch\<close>: the error is logged, the cache is left as it was,
  and the answer is 500 with the route's error message, not the loaded data.
\<close>

theorem set_failure_answers_500:
  assumes "redis_get_fault w = None" and "cache_miss w (route_key r req)"
    and "find_fault w = None" and "redis_setex_fault w = Some e" and "has_data r req w"
  shows "fst (read_handler r req w) = Inr \<lparr>status = 500, body = message (route_error r)\<rparr>
       \<and> loader_calls (trace_of (read_handler r) req w) = 1
       \<and> cache (snd (read_handler r req w)) = cache w
       \<and> (\<exists>m. last (logs (snd (read_handler r req w))) = LogError m e)"
proof (cases r)
  case PlayersList
  with assms players_get_all_set_failure [of w req e] show ?thesis
    by (simp add: cache_miss_def)
next
  case TransfersList
  with assms transfers_get_all_set_failure [of w req e] show ?thesis
    by (simp add: cache_miss_def)
next
  case TransferById
  with assms obtain d where
    "find (\<lambda>d. doc_id d = Some (JStr (req_params_id req))) (db w ''Transfer'') = Some d"
    by (auto simp: has_data_def stored_def)
  with assms TransferById transfers_get_by_id_set_failure [of w req e d] show ?thesis
    by (simp add: cache_miss_def)
next
  case AwardsList
  with assms awards_get_all_set_failure [of w req e] show ?thesis
    by (simp add: cache_miss_def)
next
  case AwardById
  with assms obtain d where
    "find (\<lambda>d. doc_id d = Some (JStr (req_params_id req))) (db w ''Award'') = Some d"
    by (auto simp: has_data_def stored_def)
  with assms AwardById awards_get_by_id_set_failure [of w req e d] show ?thesis
    by (simp add: cache_miss_def)
next
  case PlayerStatsList
  with assms playerStats_get_all_set_failure [of w req e] show ?thesis
    by (simp add: cache_miss_def)
next
  case PlayerStatById
  with assms obtain d where
    "find (\<lambda>d. doc_id d = Some (JStr (req_params_id req))) (db w ''PlayerStat'') = Some d"
    by (auto simp: has_data_def stored_def)
  with assms PlayerStatById playerStats_get_by_id_set_failure [of w req e d] show ?thesis
    by (simp add: cache_miss_def)
next
  case NewsList
  with assms news_get_all_set_failure [of w req e] show ?thesis
    by (simp add: cache_miss_def)
next
  case NewsById
  with assms obtain d where
    "find (\<lambda>d. doc_id d = Some (JStr (req_params_id req))) (db w ''News'') = Some d"
    by (auto simp: has_data_def stored_def)
  with assms NewsById news_get_by_id_set_failure [of w req e d] show ?thesis
    by (simp add: cache_miss_def)
qed

theorem set_failure_answers_500_witness:
  "fst (read_handler TransfersList list_transfers set_outage)
     = Inr \<lparr>status = 500, body = message (route_error TransfersList)\<rparr>
   \<and> loader_calls (trace_of (read_handler TransfersList) list_transfers set_outage) = 1
   \<and> cache (snd (read_handler TransfersList list_transfers set_outage)) = cache set_outage
   \<and> (\<exists>m. last (logs (snd (read_handler TransfersList list_transfers set_outage)))
          = LogError m (Error ''READONLY''))"
proof -
  have a: "redis_get_fault set_outage = None" by code_simp
  have b: "cache_miss set_outage (route_key TransfersList list_transfers)" by code_simp
  have c: "find_fault set_outage = None" by code_simp
  have d: "redis_setex_fault set_outage = Some (Error ''READONLY'')" by code_simp
  have e: "has_data TransfersList list_transfers set_outage" by code_simp
  from set_failure_answers_500 [OF a b c d e] show ?thesis .
qed

text \<open>
  Claim C6 as stated fails: the store holds the sample transfer and delivers
  it, Redis refuses the \<^verbatim>\<open>SETEX\<close>, and the list of transfers is answered with 500;
  with a working \<^verbatim>\<open>SETEX\<close> the same request is answered with 200.
\<close>

theorem set_failure_fails_the_read:
  "length (db set_outage ''Transfer'') = 1
   \<and> loader_calls (trace_of transfers_get_all list_transfers set_outage) = 1
   \<and> fst (transfers_get_all list_transfers set_outage)
       = Inr \<lparr>status = 500, body = message ''Error fetching transfers''\<rparr>
   \<and> status_of (fst (transfers_get_all list_transfers one_transfer)) = Some 200"
  by code_simp






text \<open>
  Claim C8. Whatever the request and the world, every \<^verbatim>\<open>SETEX\<close> a cached read route
  sends carries 3600 seconds; every key of the cache is as before the request or holds
  an entry that expires 3600 seconds after it, and is no longer served once an hour
  has gone by.
\<close>

theorem populations_expire_after_an_hour:
  "list_all (\<lambda>t. t = 3600) (setex_ttls (trace_of (read_handler r) req w))
   \<and> (cache (snd (read_handler r req w)) k = cache w k
      \<or> (\<exists>v. cache (snd (read_handler r req w)) k
              = Some \<lparr>payload = v, expires_at = clock w + 3600\<rparr>))
   \<and> (cache (snd (read_handler r req w)) k = cache w k
      \<or> live (snd (read_handler r req w)\<lparr>clock := clock w + 3600 + n\<rparr>) k = None)"
proof -
  have "read_summary w (snd (read_handler r req w))"
    by (rule read_handler_summary)
  then show ?thesis
    by (auto simp: read_summary_def trace_of_def live_def)
qed

theorem populations_expire_after_an_hour_witness:
  "setex_ttls (trace_of (read_handler TransfersList) list_transfers one_transfer) = [3600]
   \<and> list_all (\<lambda>t. t = 3600)
        (setex_ttls (trace_of (read_handler TransfersList) list_transfers one_transfer))
   \<and> live (snd (read_handler TransfersList list_transfers one_transfer)
              \<lparr>clock := clock one_transfer + 3600 + 0\<rparr>) ''transfers:{}'' = None"
proof -
  have a: "setex_ttls (trace_of (read_handler TransfersList) list_transfers one_transfer) = [3600]"
    by code_simp
  have b: "cache (snd (read_handler TransfersList list_transfers one_transfer)) ''transfers:{}''
      \<noteq> cache one_transfer ''transfers:{}''"
    by code_simp
  from populations_expire_after_an_hour
    [of TransfersList list_transfers one_transfer "''transfers:{}''" 0] a b
  show ?thesis by blast
qed




end
